theory Spec2Isabelle
  imports Complex_Main
begin

section \<open>JavaScript values\<close>

text \<open>
  Numbers. A JavaScript number is modelled as an exact rational, together with the three
  non-finite values the program can produce (division by zero, arithmetic on a value that is
  not a number). The rounding of IEEE doubles and the sign of zero are not modelled.
\<close>

datatype jsnum = Fin rat | PosInf | NegInf | NaN

fun num_neg :: "jsnum \<Rightarrow> jsnum" where
  "num_neg (Fin a) = Fin (- a)"
| "num_neg PosInf = NegInf"
| "num_neg NegInf = PosInf"
| "num_neg NaN = NaN"

fun num_add :: "jsnum \<Rightarrow> jsnum \<Rightarrow> jsnum" where
  "num_add (Fin a) (Fin b) = Fin (a + b)"
| "num_add NaN _ = NaN"
| "num_add _ NaN = NaN"
| "num_add PosInf NegInf = NaN"
| "num_add NegInf PosInf = NaN"
| "num_add PosInf _ = PosInf"
| "num_add NegInf _ = NegInf"
| "num_add _ PosInf = PosInf"
| "num_add _ NegInf = NegInf"

definition num_sub :: "jsnum \<Rightarrow> jsnum \<Rightarrow> jsnum" where
  "num_sub a b = num_add a (num_neg b)"

definition inf_of_sign :: "rat \<Rightarrow> jsnum" where
  "inf_of_sign s = (if s = 0 then NaN else if 0 < s then PosInf else NegInf)"

fun num_mul :: "jsnum \<Rightarrow> jsnum \<Rightarrow> jsnum" where
  "num_mul (Fin a) (Fin b) = Fin (a * b)"
| "num_mul NaN _ = NaN"
| "num_mul _ NaN = NaN"
| "num_mul PosInf (Fin b) = inf_of_sign b"
| "num_mul NegInf (Fin b) = inf_of_sign (- b)"
| "num_mul (Fin a) PosInf = inf_of_sign a"
| "num_mul (Fin a) NegInf = inf_of_sign (- a)"
| "num_mul PosInf PosInf = PosInf"
| "num_mul NegInf NegInf = PosInf"
| "num_mul PosInf NegInf = NegInf"
| "num_mul NegInf PosInf = NegInf"

fun num_div :: "jsnum \<Rightarrow> jsnum \<Rightarrow> jsnum" where
  "num_div (Fin a) (Fin b) = (if b = 0 then inf_of_sign a else Fin (a / b))"
| "num_div NaN _ = NaN"
| "num_div _ NaN = NaN"
| "num_div (Fin a) PosInf = Fin 0"
| "num_div (Fin a) NegInf = Fin 0"
| "num_div PosInf (Fin b) = (if 0 \<le> b then PosInf else NegInf)"
| "num_div NegInf (Fin b) = (if 0 \<le> b then NegInf else PosInf)"
| "num_div _ _ = NaN"

text \<open>\<^verbatim>\<open>Math.round\<close>: the nearest integer, a tie going up.\<close>

fun Math_round :: "jsnum \<Rightarrow> jsnum" where
  "Math_round (Fin a) = Fin (of_int \<lfloor>a + 1 / 2\<rfloor>)"
| "Math_round n = n"

text \<open>
  Values of type \<^verbatim>\<open>any\<close>: what \<^verbatim>\<open>JSON.parse\<close> returns and what object literals build,
  with \<^verbatim>\<open>undefined\<close> for the read of a property that is not there. An object keeps its
  properties in order; a later binding of a key overrides an earlier one. Texts are
  sequences of code units below 256.
\<close>

datatype json =
    JUndefined
  | JNull
  | JBool bool
  | JNum jsnum
  | JStr string
  | JArr "json list"
  | JObj "(string \<times> json) list"

text \<open>\<^verbatim>\<open>!v\<close> is \<open>\<not> truthy v\<close>.\<close>

fun truthy :: "json \<Rightarrow> bool" where
  "truthy JUndefined = False"
| "truthy JNull = False"
| "truthy (JBool b) = b"
| "truthy (JNum n) = (n \<noteq> Fin 0 \<and> n \<noteq> NaN)"
| "truthy (JStr s) = (s \<noteq> [])"
| "truthy (JArr _) = True"
| "truthy (JObj _) = True"

text \<open>
  \<^verbatim>\<open>v.k\<close>, for the keys the program reads on parsed values (\<^verbatim>\<open>meals\<close>, \<^verbatim>\<open>name\<close>,
  \<^verbatim>\<open>mealType\<close>, \<^verbatim>\<open>calories\<close>, \<^verbatim>\<open>candidates\<close>, \<^verbatim>\<open>content\<close>, \<^verbatim>\<open>parts\<close>, \<^verbatim>\<open>text\<close>): none of
  them is a property of arrays, strings, numbers or booleans, or inherited by objects, so
  the read gives \<^verbatim>\<open>undefined\<close> unless the value is an object that has the key. The program
  never reads a property of \<^verbatim>\<open>null\<close> or \<^verbatim>\<open>undefined\<close>: each read is guarded by a test of
  the value before it.
\<close>

fun read_prop :: "json \<Rightarrow> string \<Rightarrow> json" where
  "read_prop (JObj kvs) k = (case map_of (rev kvs) k of Some v \<Rightarrow> v | None \<Rightarrow> JUndefined)"
| "read_prop _ k = JUndefined"

fun isArray :: "json \<Rightarrow> bool" where
  "isArray (JArr _) = True"
| "isArray _ = False"

fun elems :: "json \<Rightarrow> json list" where
  "elems (JArr xs) = xs"
| "elems _ = []"

fun typeof_object :: "json \<Rightarrow> bool" where
  "typeof_object JNull = True"
| "typeof_object (JArr _) = True"
| "typeof_object (JObj _) = True"
| "typeof_object _ = False"

fun typeof_number :: "json \<Rightarrow> bool" where
  "typeof_number (JNum _) = True"
| "typeof_number _ = False"

section \<open>Caloric model\<close>

record UserProfile =
  age :: rat
  gender :: string
  height :: rat
  weight :: rat
  targetWeight :: rat
  activityLevel :: string
  goal :: string
  medicalConditions :: "string list"
  allergies :: "string list"
  timelineWeeks :: rat

definition calculateBMR :: "UserProfile \<Rightarrow> rat" where
  "calculateBMR profile =
     (if gender profile = ''male''
      then 10 * weight profile + 25 / 4 * height profile - 5 * age profile + 5
      else 10 * weight profile + 25 / 4 * height profile - 5 * age profile - 161)"

text \<open>
  \<^verbatim>\<open>activityMultipliers[activityLevel]\<close> is a property read on an object literal. The
  literal has five properties of its own and inherits those of \<^verbatim>\<open>Object.prototype\<close>,
  which are functions (and, for \<^verbatim>\<open>__proto__\<close>, an object).
\<close>

datatype property = OwnNumber rat | Inherited | Absent

definition Object_prototype_keys :: "string list" where
  "Object_prototype_keys =
     [''constructor'', ''__proto__'', ''hasOwnProperty'', ''isPrototypeOf'',
      ''propertyIsEnumerable'', ''toLocaleString'', ''toString'', ''valueOf'',
      ''__defineGetter__'', ''__defineSetter__'', ''__lookupGetter__'', ''__lookupSetter__'']"

definition activityMultipliers :: "string \<Rightarrow> property" where
  "activityMultipliers k =
     (if k = ''sedentary'' then OwnNumber (6 / 5)
      else if k = ''light'' then OwnNumber (11 / 8)
      else if k = ''moderate'' then OwnNumber (31 / 20)
      else if k = ''active'' then OwnNumber (69 / 40)
      else if k = ''very_active'' then OwnNumber (19 / 10)
      else if k \<in> set Object_prototype_keys then Inherited
      else Absent)"

text \<open>
  \<^verbatim>\<open>bmr * (activityMultipliers[activityLevel] || 1.2)\<close>: an absent property (and a zero)
  gives the default; an inherited function is truthy, and its product with a number is
  \<^verbatim>\<open>NaN\<close>.
\<close>

definition tdee_of :: "rat \<Rightarrow> string \<Rightarrow> jsnum" where
  "tdee_of bmr level =
     (case activityMultipliers level of
        OwnNumber f \<Rightarrow> Fin (bmr * (if f = 0 then 6 / 5 else f))
      | Inherited \<Rightarrow> NaN
      | Absent \<Rightarrow> Fin (bmr * (6 / 5)))"

definition calculateDailyCalories :: "rat \<Rightarrow> string \<Rightarrow> string \<Rightarrow> jsnum" where
  "calculateDailyCalories bmr level g =
     (let tdee = tdee_of bmr level in
      if g = ''weight_loss'' then Math_round (num_sub tdee (Fin 500))
      else if g = ''muscle_gain'' then Math_round (num_add tdee (Fin 300))
      else Math_round tdee)"

text \<open>The formula in the words of the specification.\<close>

definition spec_activityFactor :: "string \<Rightarrow> rat" where
  "spec_activityFactor level =
     (case map_of [(''sedentary'', 6 / 5), (''light'', 11 / 8), (''moderate'', 31 / 20),
                   (''active'', 69 / 40), (''very_active'', 19 / 10)] level of
        Some f \<Rightarrow> f | None \<Rightarrow> 6 / 5)"

definition spec_goalAdjustment :: "string \<Rightarrow> rat" where
  "spec_goalAdjustment g =
     (if g = ''weight_loss'' then - 500 else if g = ''muscle_gain'' then 300 else 0)"

definition spec_BMR :: "UserProfile \<Rightarrow> rat" where
  "spec_BMR p =
     10 * weight p + 25 / 4 * height p - 5 * age p + 5 - (if gender p = ''male'' then 0 else 166)"

definition spec_target :: "UserProfile \<Rightarrow> jsnum" where
  "spec_target p =
     Math_round (Fin (spec_BMR p * spec_activityFactor (activityLevel p)
                      + spec_goalAdjustment (goal p)))"

definition example_profile :: UserProfile where
  "example_profile =
     \<lparr> age = 30, gender = ''male'', height = 180, weight = 80, targetWeight = 80,
       activityLevel = ''sedentary'', goal = ''maintenance'', medicalConditions = [],
       allergies = [], timelineWeeks = 4 \<rparr>"

section \<open>Plan validator\<close>

text \<open>
  \<^verbatim>\<open>validateDietPlanStructure(dietPlan: any): boolean\<close>. The two loops return
  \<^verbatim>\<open>false\<close> at the first day or meal that fails its test.
\<close>

fun validate_meals :: "json list \<Rightarrow> bool" where
  "validate_meals [] = True"
| "validate_meals (meal # rest) =
     (if \<not> truthy meal \<or> \<not> truthy (read_prop meal ''name'') \<or>
         \<not> truthy (read_prop meal ''mealType'') \<or>
         \<not> typeof_number (read_prop meal ''calories'')
      then False
      else validate_meals rest)"

fun validate_days :: "json list \<Rightarrow> bool" where
  "validate_days [] = True"
| "validate_days (day # rest) =
     (if \<not> truthy day \<or> \<not> truthy (read_prop day ''meals'') \<or>
         \<not> isArray (read_prop day ''meals'') \<or> length (elems (read_prop day ''meals'')) = 0
      then False
      else if \<not> validate_meals (elems (read_prop day ''meals'')) then False
      else validate_days rest)"

definition validateDietPlanStructure :: "json \<Rightarrow> bool" where
  "validateDietPlanStructure dietPlan =
     (if \<not> truthy dietPlan \<or> \<not> typeof_object dietPlan then False
      else if \<not> truthy (read_prop dietPlan ''meals'') \<or> \<not> isArray (read_prop dietPlan ''meals'')
      then False
      else if length (elems (read_prop dietPlan ''meals'')) \<noteq> 7 then False
      else validate_days (elems (read_prop dietPlan ''meals'')))"

text \<open>The validator's checks in the words of the specification.\<close>

definition meal_ok :: "json \<Rightarrow> bool" where
  "meal_ok meal \<longleftrightarrow>
     truthy meal \<and> truthy (read_prop meal ''name'') \<and> truthy (read_prop meal ''mealType'') \<and>
     typeof_number (read_prop meal ''calories'')"

definition day_ok :: "json \<Rightarrow> bool" where
  "day_ok day \<longleftrightarrow>
     truthy day \<and> isArray (read_prop day ''meals'') \<and> elems (read_prop day ''meals'') \<noteq> [] \<and>
     list_all meal_ok (elems (read_prop day ''meals''))"

definition plan_ok :: "json \<Rightarrow> bool" where
  "plan_ok plan \<longleftrightarrow>
     truthy plan \<and> typeof_object plan \<and> isArray (read_prop plan ''meals'') \<and>
     length (elems (read_prop plan ''meals'')) = 7 \<and>
     list_all day_ok (elems (read_prop plan ''meals''))"

text \<open>The meal types of a plan, day by day.\<close>

definition plan_mealTypes :: "json \<Rightarrow> json list list" where
  "plan_mealTypes plan =
     map (\<lambda>day. map (\<lambda>meal. read_prop meal ''mealType'') (elems (read_prop day ''meals'')))
       (elems (read_prop plan ''meals''))"

section \<open>Fallback generator\<close>

record Preferences =
  dietType :: string
  cuisinePreferences :: "string list"
  tastePreferences :: "string list"
  foodRestrictions :: "string list"
  mealsPerDay :: int
  preferredMealTimes :: "(string \<times> string) list"

text \<open>
  A meal template of the literal table: its name, its description, its ingredients
  (name, amount, unit) and its instructions (step, instruction).
\<close>

record MealTemplate =
  name :: string
  description :: string
  ingredients :: "(string \<times> string \<times> string) list"
  instructions :: "(nat \<times> string) list"

definition breakfast_templates :: "MealTemplate list" where
  "breakfast_templates =
     [\<lparr> name = ''Nutritious Oatmeal Bowl'',
        description = ''Steel-cut oats with fresh seasonal fruits, nuts, and a drizzle of honey'',
        ingredients =
          [(''steel-cut oats'', ''1/2'', ''cup''),
           (''almond milk'', ''1'', ''cup''),
           (''fresh banana'', ''1'', ''medium''),
           (''mixed berries'', ''1/2'', ''cup''),
           (''chopped almonds'', ''2'', ''tbsp''),
           (''honey'', ''1'', ''tsp'')],
        instructions =
          [(1, ''Bring almond milk to a gentle boil in a saucepan''),
           (2, ''Add steel-cut oats and reduce heat to low, simmer for 15-20 minutes''),
           (3, ''Stir occasionally until oats are creamy and tender''),
           (4, ''Top with sliced banana, berries, and chopped almonds''),
           (5, ''Drizzle with honey and serve warm'')] \<rparr>,
      \<lparr> name = ''Avocado Toast Supreme'',
        description = ''Multigrain toast topped with creamy avocado, cherry tomatoes, and microgreens'',
        ingredients =
          [(''multigrain bread'', ''2'', ''slices''),
           (''ripe avocado'', ''1'', ''large''),
           (''cherry tomatoes'', ''6'', ''pieces''),
           (''microgreens'', ''1'', ''handful''),
           (''lemon juice'', ''1'', ''tbsp''),
           (''sea salt'', ''1/4'', ''tsp''),
           (''black pepper'', ''1/4'', ''tsp'')],
        instructions =
          [(1, ''Toast bread slices until golden and crispy''),
           (2, ''Mash avocado with lemon juice, salt, and pepper''),
           (3, ''Spread avocado mixture generously on toast''),
           (4, ''Top with halved cherry tomatoes and microgreens''),
           (5, ''Serve immediately while toast is still warm'')] \<rparr>,
      \<lparr> name = ''Greek Yogurt Parfait'',
        description = ''Protein-rich Greek yogurt layered with homemade granola and fresh fruits'',
        ingredients =
          [(''Greek yogurt'', ''1'', ''cup''),
           (''homemade granola'', ''1/3'', ''cup''),
           (''fresh strawberries'', ''1/2'', ''cup''),
           (''blueberries'', ''1/4'', ''cup''),
           (''raw honey'', ''1'', ''tbsp''),
           (''chia seeds'', ''1'', ''tsp'')],
        instructions =
          [(1, ''Layer half the yogurt in a glass or bowl''),
           (2, ''Add half the granola and berries''),
           (3, ''Repeat layers with remaining ingredients''),
           (4, ''Drizzle with honey and sprinkle chia seeds on top''),
           (5, ''Serve immediately for best texture'')] \<rparr>,
      \<lparr> name = ''Smoothie Bowl Delight'',
        description = ''Thick smoothie bowl topped with fresh fruits, nuts, and seeds'',
        ingredients =
          [(''frozen mango'', ''1'', ''cup''),
           (''banana'', ''1'', ''medium''),
           (''coconut milk'', ''1/2'', ''cup''),
           (''spinach'', ''1'', ''handful''),
           (''coconut flakes'', ''2'', ''tbsp''),
           (''pumpkin seeds'', ''1'', ''tbsp'')],
        instructions =
          [(1, ''Blend frozen mango, banana, coconut milk, and spinach until thick''),
           (2, ''Pour into a bowl''),
           (3, ''Top with coconut flakes and pumpkin seeds''),
           (4, ''Serve immediately'')] \<rparr>,
      \<lparr> name = ''Protein Pancakes'',
        description = ''Fluffy protein-packed pancakes with fresh berries'',
        ingredients =
          [(''protein powder'', ''1'', ''scoop''),
           (''banana'', ''1'', ''medium''),
           (''eggs'', ''2'', ''large''),
           (''oats'', ''1/4'', ''cup''),
           (''berries'', ''1/2'', ''cup''),
           (''maple syrup'', ''1'', ''tbsp'')],
        instructions =
          [(1, ''Blend all ingredients except berries until smooth''),
           (2, ''Cook pancakes in a non-stick pan''),
           (3, ''Top with fresh berries and maple syrup'')] \<rparr>,
      \<lparr> name = ''Breakfast Quinoa Bowl'',
        description = ''Warm quinoa with nuts, seeds, and fresh fruit'',
        ingredients =
          [(''quinoa'', ''1/2'', ''cup''),
           (''almond milk'', ''1'', ''cup''),
           (''cinnamon'', ''1/2'', ''tsp''),
           (''walnuts'', ''2'', ''tbsp''),
           (''apple'', ''1'', ''medium''),
           (''honey'', ''1'', ''tsp'')],
        instructions =
          [(1, ''Cook quinoa in almond milk with cinnamon''),
           (2, ''Top with chopped apple and walnuts''),
           (3, ''Drizzle with honey'')] \<rparr>,
      \<lparr> name = ''Veggie Scramble'',
        description = ''Scrambled eggs with colorful vegetables and herbs'',
        ingredients =
          [(''eggs'', ''3'', ''large''),
           (''bell pepper'', ''1/2'', ''medium''),
           (''spinach'', ''1'', ''cup''),
           (''mushrooms'', ''1/2'', ''cup''),
           (''cheese'', ''2'', ''tbsp''),
           (''herbs'', ''1'', ''tbsp'')],
        instructions =
          [(1, (''Saut'' @ [CHR 0xE9] @ '' vegetables until tender'')),
           (2, ''Add beaten eggs and scramble''),
           (3, ''Top with cheese and herbs'')] \<rparr>]"

definition lunch_templates :: "MealTemplate list" where
  "lunch_templates =
     [\<lparr> name = ''Mediterranean Quinoa Power Bowl'',
        description = ''Protein-packed quinoa with roasted vegetables, feta, and tahini dressing'',
        ingredients =
          [(''tri-color quinoa'', ''1/2'', ''cup''),
           (''cucumber'', ''1'', ''medium''),
           (''cherry tomatoes'', ''1'', ''cup''),
           (''red bell pepper'', ''1/2'', ''medium''),
           (''feta cheese'', ''1/4'', ''cup''),
           (''kalamata olives'', ''8'', ''pieces''),
           (''extra virgin olive oil'', ''2'', ''tbsp''),
           (''lemon juice'', ''1'', ''tbsp'')],
        instructions =
          [(1, ''Rinse quinoa and cook according to package directions''),
           (2, ''Dice cucumber, tomatoes, and bell pepper''),
           (3, ''Let quinoa cool to room temperature''),
           (4, ''Combine quinoa with vegetables and olives''),
           (5, ''Whisk olive oil and lemon juice, toss with salad''),
           (6, ''Top with crumbled feta and serve'')] \<rparr>,
      \<lparr> name = ''Grilled Chicken & Hummus Wrap'',
        description = ''Lean grilled chicken with fresh vegetables and creamy hummus in a whole wheat wrap'',
        ingredients =
          [(''whole wheat tortilla'', ''1'', ''large''),
           (''grilled chicken breast'', ''4'', ''oz''),
           (''romaine lettuce'', ''2'', ''cups''),
           (''roma tomato'', ''1'', ''medium''),
           (''red onion'', ''2'', ''tbsp''),
           (''hummus'', ''3'', ''tbsp''),
           (''cucumber'', ''1/4'', ''cup'')],
        instructions =
          [(1, ''Warm tortilla in a dry pan for 30 seconds each side''),
           (2, ''Spread hummus evenly across the tortilla''),
           (3, ''Layer lettuce, sliced chicken, tomato, and cucumber''),
           (4, ''Add red onion and any desired seasonings''),
           (5, ''Roll tightly, tucking in sides as you go''),
           (6, ''Cut in half diagonally and serve'')] \<rparr>,
      \<lparr> name = ''Rainbow Buddha Bowl'',
        description = ''Colorful bowl with brown rice, roasted vegetables, and tahini dressing'',
        ingredients =
          [(''brown rice'', ''1/2'', ''cup''),
           (''roasted sweet potato'', ''1/2'', ''cup''),
           (''steamed broccoli'', ''1/2'', ''cup''),
           (''shredded purple cabbage'', ''1/4'', ''cup''),
           (''chickpeas'', ''1/2'', ''cup''),
           (''tahini'', ''2'', ''tbsp''),
           (''lemon juice'', ''1'', ''tbsp''),
           (''pumpkin seeds'', ''1'', ''tbsp'')],
        instructions =
          [(1, ''Cook brown rice according to package directions''),
           (2, (''Roast sweet potato cubes at 400'' @ [CHR 0xB0] @ ''F for 25 minutes'')),
           (3, ''Steam broccoli until tender-crisp''),
           (4, ''Arrange all ingredients in a bowl''),
           (5, ''Whisk tahini with lemon juice and water to thin''),
           (6, ''Drizzle dressing over bowl and sprinkle with seeds'')] \<rparr>,
      \<lparr> name = ''Asian Lettuce Wraps'',
        description = ''Fresh lettuce cups filled with seasoned protein and vegetables'',
        ingredients =
          [(''butter lettuce'', ''8'', ''leaves''),
           (''ground turkey'', ''4'', ''oz''),
           (''water chestnuts'', ''1/4'', ''cup''),
           (''carrots'', ''1/4'', ''cup''),
           (''soy sauce'', ''2'', ''tbsp''),
           (''sesame oil'', ''1'', ''tsp''),
           (''green onions'', ''2'', ''stalks'')],
        instructions =
          [(1, ''Cook ground turkey until browned''),
           (2, ''Add diced vegetables and seasonings''),
           (3, ''Serve mixture in lettuce cups''),
           (4, ''Garnish with green onions'')] \<rparr>,
      \<lparr> name = ''Lentil Soup'',
        description = ''Hearty and nutritious lentil soup with vegetables'',
        ingredients =
          [(''red lentils'', ''1/2'', ''cup''),
           (''vegetable broth'', ''2'', ''cups''),
           (''carrots'', ''1'', ''medium''),
           (''celery'', ''2'', ''stalks''),
           (''onion'', ''1/2'', ''medium''),
           (''garlic'', ''2'', ''cloves''),
           (''herbs'', ''1'', ''tsp'')],
        instructions =
          [(1, (''Saut'' @ [CHR 0xE9] @ '' onion, carrots, and celery'')),
           (2, ''Add lentils and broth''),
           (3, ''Simmer until lentils are tender''),
           (4, ''Season with herbs and serve'')] \<rparr>,
      \<lparr> name = ''Caprese Salad'',
        description = ''Fresh mozzarella, tomatoes, and basil with balsamic glaze'',
        ingredients =
          [(''fresh mozzarella'', ''4'', ''oz''),
           (''tomatoes'', ''2'', ''large''),
           (''fresh basil'', ''1/4'', ''cup''),
           (''balsamic vinegar'', ''2'', ''tbsp''),
           (''olive oil'', ''1'', ''tbsp''),
           (''salt'', ''1/4'', ''tsp'')],
        instructions =
          [(1, ''Slice tomatoes and mozzarella''),
           (2, ''Arrange with basil leaves''),
           (3, ''Drizzle with oil and balsamic''),
           (4, ''Season with salt'')] \<rparr>,
      \<lparr> name = ''Tuna Salad Bowl'',
        description = ''Protein-rich tuna salad with mixed greens and vegetables'',
        ingredients =
          [(''canned tuna'', ''1'', ''can''),
           (''mixed greens'', ''2'', ''cups''),
           (''cherry tomatoes'', ''1/2'', ''cup''),
           (''cucumber'', ''1/2'', ''medium''),
           (''avocado'', ''1/2'', ''medium''),
           (''olive oil'', ''1'', ''tbsp''),
           (''lemon juice'', ''1'', ''tbsp'')],
        instructions =
          [(1, ''Drain and flake tuna''),
           (2, ''Arrange greens and vegetables in bowl''),
           (3, ''Top with tuna and avocado''),
           (4, ''Dress with oil and lemon'')] \<rparr>]"

definition dinner_templates :: "MealTemplate list" where
  "dinner_templates =
     [\<lparr> name = ''Herb-Crusted Baked Salmon'',
        description = ''Fresh Atlantic salmon with herb crust, served with roasted seasonal vegetables'',
        ingredients =
          [(''salmon fillet'', ''6'', ''oz''),
           (''fresh dill'', ''2'', ''tbsp''),
           (''fresh parsley'', ''2'', ''tbsp''),
           (''garlic'', ''2'', ''cloves''),
           (''lemon zest'', ''1'', ''tsp''),
           (''asparagus'', ''8'', ''spears''),
           (''baby potatoes'', ''6'', ''small''),
           (''olive oil'', ''2'', ''tbsp'')],
        instructions =
          [(1, (''Preheat oven to 425'' @ [CHR 0xB0] @ ''F'')),
           (2, ''Mix herbs, minced garlic, and lemon zest''),
           (3, ''Rub herb mixture on salmon fillet''),
           (4, ''Toss vegetables with olive oil and seasonings''),
           (5, ''Bake salmon and vegetables for 18-20 minutes''),
           (6, ''Let rest 5 minutes before serving'')] \<rparr>,
      \<lparr> name = ''Vegetable Curry with Coconut Rice'',
        description = ''Aromatic mixed vegetable curry served over fragrant coconut basmati rice'',
        ingredients =
          [(''basmati rice'', ''1/2'', ''cup''),
           (''coconut milk'', ''1/2'', ''cup''),
           (''mixed vegetables'', ''2'', ''cups''),
           (''curry powder'', ''2'', ''tsp''),
           (''ginger'', ''1'', ''tbsp''),
           (''onion'', ''1'', ''medium''),
           (''garlic'', ''3'', ''cloves''),
           (''vegetable broth'', ''1'', ''cup'')],
        instructions =
          [(1, ''Cook rice with half coconut milk and water''),
           (2, (''Saut'' @ [CHR 0xE9] @ '' onion, garlic, and ginger until fragrant'')),
           (3, ''Add curry powder and cook for 1 minute''),
           (4, ''Add vegetables and broth, simmer 15 minutes''),
           (5, ''Stir in remaining coconut milk''),
           (6, ''Serve curry over coconut rice'')] \<rparr>,
      \<lparr> name = ''Lean Turkey Meatballs with Zucchini Noodles'',
        description = ''Healthy turkey meatballs in marinara sauce over spiralized zucchini noodles'',
        ingredients =
          [(''ground turkey'', ''5'', ''oz''),
           (''zucchini'', ''2'', ''medium''),
           (''marinara sauce'', ''1/2'', ''cup''),
           (''whole wheat breadcrumbs'', ''1/4'', ''cup''),
           (''egg'', ''1'', ''large''),
           (''Italian herbs'', ''1'', ''tsp''),
           (''parmesan cheese'', ''2'', ''tbsp'')],
        instructions =
          [(1, ''Mix turkey, breadcrumbs, egg, and herbs''),
           (2, ''Form into 8-10 small meatballs''),
           (3, (''Bake meatballs at 375'' @ [CHR 0xB0] @ ''F for 20 minutes'')),
           (4, ''Spiralize zucchini into noodles''),
           (5, ''Heat marinara and add cooked meatballs''),
           (6, ''Serve over zucchini noodles with parmesan'')] \<rparr>,
      \<lparr> name = ''Stuffed Bell Peppers'',
        description = ''Colorful bell peppers stuffed with quinoa, vegetables, and herbs'',
        ingredients =
          [(''bell peppers'', ''2'', ''large''),
           (''quinoa'', ''1/2'', ''cup''),
           (''black beans'', ''1/2'', ''cup''),
           (''corn'', ''1/4'', ''cup''),
           (''tomatoes'', ''1/2'', ''cup''),
           (''cheese'', ''1/4'', ''cup''),
           (''herbs'', ''1'', ''tbsp'')],
        instructions =
          [(1, ''Cut tops off peppers and remove seeds''),
           (2, ''Cook quinoa and mix with vegetables''),
           (3, ''Stuff peppers with quinoa mixture''),
           (4, ''Top with cheese and bake 25 minutes'')] \<rparr>,
      \<lparr> name = ''Grilled Chicken with Sweet Potato'',
        description = ''Marinated grilled chicken breast with roasted sweet potato wedges'',
        ingredients =
          [(''chicken breast'', ''6'', ''oz''),
           (''sweet potato'', ''1'', ''large''),
           (''olive oil'', ''2'', ''tbsp''),
           (''herbs'', ''1'', ''tbsp''),
           (''garlic'', ''2'', ''cloves''),
           (''lemon'', ''1/2'', ''medium''),
           (''green beans'', ''1'', ''cup'')],
        instructions =
          [(1, ''Marinate chicken with herbs and garlic''),
           (2, ''Cut sweet potato into wedges''),
           (3, ''Grill chicken and roast sweet potato''),
           (4, ''Steam green beans until tender''),
           (5, ''Serve with lemon wedges'')] \<rparr>,
      \<lparr> name = ''Fish Tacos'',
        description = ''Grilled fish tacos with cabbage slaw and avocado'',
        ingredients =
          [(''white fish'', ''5'', ''oz''),
           (''corn tortillas'', ''3'', ''small''),
           (''cabbage'', ''1'', ''cup''),
           (''avocado'', ''1/2'', ''medium''),
           (''lime'', ''1'', ''medium''),
           (''cilantro'', ''2'', ''tbsp''),
           (''yogurt'', ''2'', ''tbsp'')],
        instructions =
          [(1, ''Season and grill fish until flaky''),
           (2, ''Make slaw with cabbage and lime''),
           (3, ''Warm tortillas''),
           (4, ''Assemble tacos with fish, slaw, and avocado'')] \<rparr>,
      \<lparr> name = ''Eggplant Parmesan'',
        description = ''Baked eggplant layered with marinara and cheese'',
        ingredients =
          [(''eggplant'', ''1'', ''medium''),
           (''marinara sauce'', ''1'', ''cup''),
           (''mozzarella cheese'', ''1/2'', ''cup''),
           (''parmesan cheese'', ''1/4'', ''cup''),
           (''breadcrumbs'', ''1/4'', ''cup''),
           (''basil'', ''2'', ''tbsp''),
           (''olive oil'', ''2'', ''tbsp'')],
        instructions =
          [(1, ''Slice eggplant and brush with oil''),
           (2, ''Bake eggplant until tender''),
           (3, ''Layer with sauce and cheese''),
           (4, ''Bake until cheese melts'')] \<rparr>]"

definition snack_templates :: "MealTemplate list" where
  "snack_templates =
     [\<lparr> name = ''Greek Yogurt Berry Bowl'',
        description = ''Protein-rich Greek yogurt with antioxidant-packed mixed berries'',
        ingredients =
          [(''Greek yogurt'', ''3/4'', ''cup''),
           (''mixed berries'', ''1/2'', ''cup''),
           (''honey'', ''1'', ''tsp''),
           (''chopped walnuts'', ''1'', ''tbsp'')],
        instructions =
          [(1, ''Place yogurt in a serving bowl''),
           (2, ''Top with fresh mixed berries''),
           (3, ''Drizzle with honey and sprinkle nuts'')] \<rparr>,
      \<lparr> name = ''Energy Trail Mix'',
        description = ''Homemade mix of nuts, seeds, and dried fruit for sustained energy'',
        ingredients =
          [(''almonds'', ''2'', ''tbsp''),
           (''walnuts'', ''1'', ''tbsp''),
           (''pumpkin seeds'', ''1'', ''tbsp''),
           (''dried cranberries'', ''1'', ''tbsp'')],
        instructions =
          [(1, ''Mix all ingredients in a small bowl''),
           (2, ''Store in airtight container for freshness'')] \<rparr>,
      \<lparr> name = ''Apple with Almond Butter'',
        description = ''Crisp apple slices with creamy almond butter'',
        ingredients =
          [(''apple'', ''1'', ''medium''),
           (''almond butter'', ''2'', ''tbsp''),
           (''cinnamon'', ''1/4'', ''tsp'')],
        instructions =
          [(1, ''Slice apple into wedges''),
           (2, ''Serve with almond butter and cinnamon'')] \<rparr>,
      \<lparr> name = ''Hummus and Veggies'',
        description = ''Fresh vegetables with protein-rich hummus'',
        ingredients =
          [(''hummus'', ''1/4'', ''cup''),
           (''carrots'', ''1'', ''medium''),
           (''cucumber'', ''1/2'', ''medium''),
           (''bell pepper'', ''1/2'', ''medium'')],
        instructions =
          [(1, ''Cut vegetables into sticks''),
           (2, ''Serve with hummus for dipping'')] \<rparr>,
      \<lparr> name = ''Protein Smoothie'',
        description = ''Refreshing protein smoothie with fruits and vegetables'',
        ingredients =
          [(''protein powder'', ''1'', ''scoop''),
           (''banana'', ''1/2'', ''medium''),
           (''spinach'', ''1'', ''handful''),
           (''almond milk'', ''1'', ''cup''),
           (''berries'', ''1/4'', ''cup'')],
        instructions =
          [(1, ''Blend all ingredients until smooth''),
           (2, ''Serve immediately'')] \<rparr>]"

text \<open>
  \<^verbatim>\<open>mealTemplates[mealType] || mealTemplates.breakfast\<close>; the generator reads the table
  with the four meal types only.
\<close>

definition mealTemplates :: "string \<Rightarrow> MealTemplate list" where
  "mealTemplates mealType =
     (if mealType = ''breakfast'' then breakfast_templates
      else if mealType = ''lunch'' then lunch_templates
      else if mealType = ''dinner'' then dinner_templates
      else if mealType = ''snack'' then snack_templates
      else breakfast_templates)"

definition days :: "string list" where
  "days = [''Monday'', ''Tuesday'', ''Wednesday'', ''Thursday'', ''Friday'', ''Saturday'',
           ''Sunday'']"

definition mealTypes :: "int \<Rightarrow> string list" where
  "mealTypes m =
     [''breakfast'', ''lunch'', ''dinner'']
       @ (if m > 3 then [''snack''] else [])
       @ (if m > 4 then [''snack''] else [])"

text \<open>\<^verbatim>\<open>xs.slice(0, end)\<close> for an integer \<^verbatim>\<open>end\<close>: a negative end counts from the back.\<close>

definition slice0 :: "'a list \<Rightarrow> int \<Rightarrow> 'a list" where
  "slice0 xs e =
     (let len = int (length xs);
          k = (if e < 0 then max (len + e) 0 else min e len)
      in take (nat k) xs)"

text \<open>\<^verbatim>\<open>s.replace('_', ' ')\<close>: the first underscore only.\<close>

fun replace_underscore :: "string \<Rightarrow> string" where
  "replace_underscore [] = []"
| "replace_underscore (c # cs) =
     (if c = CHR ''_'' then CHR '' '' # cs else c # replace_underscore cs)"

definition or_else :: "string \<Rightarrow> string \<Rightarrow> string" where
  "or_else s d = (if s = [] then d else s)"

definition ingredient_json :: "string \<times> string \<times> string \<Rightarrow> json" where
  "ingredient_json i =
     (case i of (n, a, u) \<Rightarrow> JObj [(''name'', JStr n), (''amount'', JStr a), (''unit'', JStr u)])"

definition instruction_json :: "nat \<times> string \<Rightarrow> json" where
  "instruction_json i =
     (case i of (k, t) \<Rightarrow> JObj [(''step'', JNum (Fin (of_nat k))), (''instruction'', JStr t)])"

definition default_mealTime :: "string \<Rightarrow> string" where
  "default_mealTime mealType =
     (if mealType = ''breakfast'' then ''08:00''
      else if mealType = ''lunch'' then ''13:00''
      else if mealType = ''dinner'' then ''19:00''
      else ''15:00'')"

definition fallback_meal :: "jsnum \<Rightarrow> Preferences \<Rightarrow> nat \<Rightarrow> string \<Rightarrow> json" where
  "fallback_meal caloriesPerMeal preferences dayIndex mealType =
     (let templates = mealTemplates mealType;
          template = templates ! (dayIndex mod length templates)
      in JObj
        [(''name'', JStr (name template)),
         (''description'', JStr (description template)),
         (''mealType'', JStr mealType),
         (''mealTime'',
            JStr (case map_of (preferredMealTimes preferences) mealType of
                    Some t \<Rightarrow> or_else t (default_mealTime mealType)
                  | None \<Rightarrow> default_mealTime mealType)),
         (''calories'', JNum caloriesPerMeal),
         (''protein'', JNum (Math_round (num_div (num_mul caloriesPerMeal (Fin (1 / 4))) (Fin 4)))),
         (''carbs'', JNum (Math_round (num_div (num_mul caloriesPerMeal (Fin (9 / 20))) (Fin 4)))),
         (''fat'', JNum (Math_round (num_div (num_mul caloriesPerMeal (Fin (3 / 10))) (Fin 9)))),
         (''ingredients'', JArr (map ingredient_json (ingredients template))),
         (''instructions'', JArr (map instruction_json (instructions template))),
         (''prepTime'', JNum (Fin 15)),
         (''cookTime'', JNum (Fin 20)),
         (''difficulty'', JStr ''easy''),
         (''tags'',
            JArr [JStr ''healthy'', JStr ''balanced'', JStr mealType,
                  JStr (or_else (dietType preferences) ''nutritious'')]),
         (''cuisineType'',
            JStr (case cuisinePreferences preferences of
                    [] \<Rightarrow> ''international''
                  | c # _ \<Rightarrow> or_else c ''international''))])"

definition fallback_day :: "jsnum \<Rightarrow> Preferences \<Rightarrow> nat \<times> string \<Rightarrow> json" where
  "fallback_day dailyCalories preferences d =
     (case d of (dayIndex, dayName) \<Rightarrow>
        JObj
          [(''dayNumber'', JNum (Fin (of_nat (dayIndex + 1)))),
           (''dayName'', JStr dayName),
           (''totalDayCalories'', JNum dailyCalories),
           (''meals'',
              JArr (map (fallback_meal
                           (Math_round (num_div dailyCalories
                              (Fin (of_int (mealsPerDay preferences)))))
                           preferences dayIndex)
                      (slice0 (mealTypes (mealsPerDay preferences))
                         (mealsPerDay preferences))))])"

definition fallbackPlan :: "jsnum \<Rightarrow> Preferences \<Rightarrow> UserProfile \<Rightarrow> json" where
  "fallbackPlan dailyCalories preferences userProfile =
     JObj
       [(''name'',
           JStr (''Personalized '' @ or_else (replace_underscore (goal userProfile)) ''Wellness''
                 @ '' Diet Plan'')),
        (''description'',
           JStr (''A comprehensive, balanced 7-day diet plan designed with whole foods and ''
                 @ ''proper nutrition to help you achieve your health goals while enjoying ''
                 @ ''delicious, varied meals throughout the week.'')),
        (''totalCalories'', JNum dailyCalories),
        (''durationWeeks'',
           JNum (Fin (if timelineWeeks userProfile = 0 then 4 else timelineWeeks userProfile))),
        (''meals'', JArr (map (fallback_day dailyCalories preferences) (enumerate 0 days)))]"

text \<open>A thrown \<^verbatim>\<open>Error\<close>, with its message.\<close>

datatype error = Error string

definition getComprehensiveFallbackDietPlan ::
    "jsnum \<Rightarrow> Preferences \<Rightarrow> UserProfile \<Rightarrow> error + json" where
  "getComprehensiveFallbackDietPlan dailyCalories preferences userProfile =
     (if \<not> validateDietPlanStructure (fallbackPlan dailyCalories preferences userProfile)
      then Inl (Error ''Fallback diet plan generation failed - this should never happen'')
      else Inr (fallbackPlan dailyCalories preferences userProfile))"

section \<open>Text functions\<close>

text \<open>
  The characters \<^verbatim>\<open>\s\<close> matches and \<^verbatim>\<open>trim\<close> removes, among the code units below 256:
  tab, line feed, vertical tab, form feed, carriage return, space, no-break space.
\<close>

definition is_space :: "char \<Rightarrow> bool" where
  "is_space c \<longleftrightarrow> c \<in> set [CHR 0x09, CHR 0x0A, CHR 0x0B, CHR 0x0C, CHR 0x0D, CHR 0x20, CHR 0xA0]"

definition is_line_terminator :: "char \<Rightarrow> bool" where
  "is_line_terminator c \<longleftrightarrow> c = CHR 0x0A \<or> c = CHR 0x0D"

definition trim :: "string \<Rightarrow> string" where
  "trim s = rev (dropWhile is_space (rev (dropWhile is_space s)))"

definition startsWith :: "string \<Rightarrow> string \<Rightarrow> bool" where
  "startsWith s p \<longleftrightarrow> take (length p) s = p"

definition endsWith :: "string \<Rightarrow> string \<Rightarrow> bool" where
  "endsWith s p \<longleftrightarrow> startsWith (rev s) (rev p)"

text \<open>\<^verbatim>\<open>s.indexOf(c)\<close> and \<^verbatim>\<open>s.lastIndexOf(c)\<close> for a single character; \<open>- 1\<close> when absent.\<close>

fun indexOf_from :: "nat \<Rightarrow> string \<Rightarrow> char \<Rightarrow> int" where
  "indexOf_from i [] c = - 1"
| "indexOf_from i (x # xs) c = (if x = c then int i else indexOf_from (Suc i) xs c)"

definition indexOf :: "string \<Rightarrow> char \<Rightarrow> int" where
  "indexOf s c = indexOf_from 0 s c"

definition lastIndexOf :: "string \<Rightarrow> char \<Rightarrow> int" where
  "lastIndexOf s c =
     (let k = indexOf (rev s) c in if k = - 1 then - 1 else int (length s) - 1 - k)"

text \<open>
  \<^verbatim>\<open>s.substring(a, b)\<close>; the program calls it with \<open>0 \<le> a \<le> b \<le> length s\<close> only.
\<close>

definition substring :: "string \<Rightarrow> int \<Rightarrow> int \<Rightarrow> string" where
  "substring s a b = take (nat (b - a)) (drop (nat a) s)"

text \<open>\<^verbatim>\<open>s.includes(p)\<close>.\<close>

fun str_includes :: "string \<Rightarrow> string \<Rightarrow> bool" where
  "str_includes [] p = (p = [])"
| "str_includes (c # cs) p = (startsWith (c # cs) p \<or> str_includes cs p)"

text \<open>\<^verbatim>\<open>xs.join(', ')\<close>.\<close>

fun join_comma :: "string list \<Rightarrow> string" where
  "join_comma [] = []"
| "join_comma [x] = x"
| "join_comma (x # y # ys) = x @ '', '' @ join_comma (y # ys)"

section \<open>Balanced-brace extraction\<close>

text \<open>
  The loop of \<^verbatim>\<open>extractJsonFromText\<close>, from index \<open>i\<close> on the rest of the text, with the
  loop's variables; it returns \<^verbatim>\<open>startIndex\<close> and \<^verbatim>\<open>endIndex\<close> as they are when the loop
  ends or breaks.
\<close>

fun scan :: "string \<Rightarrow> nat \<Rightarrow> int \<Rightarrow> int \<Rightarrow> bool \<Rightarrow> bool \<Rightarrow> int \<times> int" where
  "scan [] i braceCount startIndex inString escapeNext = (startIndex, - 1)"
| "scan (char # rest) i braceCount startIndex inString escapeNext =
     (if escapeNext then scan rest (Suc i) braceCount startIndex inString False
      else if char = CHR 0x5C then scan rest (Suc i) braceCount startIndex inString True
      else if char = CHR 0x22 then scan rest (Suc i) braceCount startIndex (\<not> inString) False
      else if \<not> inString then
        (if char = CHR ''{'' then
           scan rest (Suc i) (braceCount + 1)
             (if braceCount = 0 then int i else startIndex) inString False
         else if char = CHR ''}'' then
           (if braceCount - 1 = 0 \<and> startIndex \<noteq> - 1 then (startIndex, int i)
            else scan rest (Suc i) (braceCount - 1) startIndex inString False)
         else scan rest (Suc i) braceCount startIndex inString False)
      else scan rest (Suc i) braceCount startIndex inString False)"

definition extractJsonFromText :: "string \<Rightarrow> string" where
  "extractJsonFromText text =
     (case scan text 0 0 (- 1) False False of (startIndex, endIndex) \<Rightarrow>
        if startIndex \<noteq> - 1 \<and> endIndex \<noteq> - 1 then substring text startIndex (endIndex + 1)
        else
          (let jsonStart = indexOf text (CHR ''{'');
               jsonEnd = lastIndexOf text (CHR ''}'')
           in if jsonStart \<noteq> - 1 \<and> jsonEnd \<noteq> - 1 \<and> jsonStart < jsonEnd
              then substring text jsonStart (jsonEnd + 1)
              else text))"

text \<open>
  The brace depth in the words of the specification: the depth after each character of a
  text, where a character after a backslash is skipped, a quote enters or leaves a string,
  and a brace counts outside strings only.
\<close>

fun depths :: "string \<Rightarrow> int \<Rightarrow> bool \<Rightarrow> bool \<Rightarrow> int list" where
  "depths [] d q esc = []"
| "depths (c # cs) d q esc =
     (if esc then d # depths cs d q False
      else if c = CHR 0x5C then d # depths cs d q True
      else if c = CHR 0x22 then d # depths cs d (\<not> q) False
      else if \<not> q \<and> c = CHR ''{'' then (d + 1) # depths cs (d + 1) q False
      else if \<not> q \<and> c = CHR ''}'' then (d - 1) # depths cs (d - 1) q False
      else d # depths cs d q False)"

text \<open>
  The span in the words of the specification, on the list of depths: the start is the
  first position where the depth goes from zero to one, the end the first position after
  it where the depth is zero.
\<close>

fun first_index :: "('a \<Rightarrow> bool) \<Rightarrow> 'a list \<Rightarrow> nat option" where
  "first_index P [] = None"
| "first_index P (x # xs) = (if P x then Some 0 else map_option Suc (first_index P xs))"

definition opens :: "int \<times> int \<Rightarrow> bool" where
  "opens pd \<longleftrightarrow> fst pd = 0 \<and> snd pd = 1"

definition span_of_depths :: "nat \<Rightarrow> int \<Rightarrow> int list \<Rightarrow> int \<times> int" where
  "span_of_depths i d0 ds =
     (case first_index opens (zip (d0 # ds) ds) of
        None \<Rightarrow> (- 1, - 1)
      | Some k \<Rightarrow>
          (int (i + k),
           case first_index (\<lambda>d. d = 0) (drop (Suc k) ds) of
             None \<Rightarrow> - 1
           | Some j \<Rightarrow> int (i + k + 1 + j)))"

definition plain :: "char \<Rightarrow> bool" where
  "plain c \<longleftrightarrow> c \<noteq> CHR ''{'' \<and> c \<noteq> CHR ''}'' \<and> c \<noteq> CHR 0x22 \<and> c \<noteq> CHR 0x5C"

section \<open>Response cleaning\<close>

text \<open>
  \<^verbatim>\<open>s.replace(/\s*```$/, '')\<close>: the pattern matches only at the end of the text, three
  backquotes with the white space before them.
\<close>

definition strip_closing_fence :: "string \<Rightarrow> string" where
  "strip_closing_fence s =
     (case rev s of
        a # b # c # r \<Rightarrow>
          if a = CHR 0x60 \<and> b = CHR 0x60 \<and> c = CHR 0x60 then rev (dropWhile is_space r) else s
      | _ \<Rightarrow> s)"

text \<open>
  \<^verbatim>\<open>s.replace(/\/\*[\s\S]*?\*\//g, '')\<close>: each \<^verbatim>\<open>/*\<close> that has a \<^verbatim>\<open>*/\<close> after it is
  removed up to the first such \<^verbatim>\<open>*/\<close>. The flag says that the text read is inside a match.
\<close>

fun has_close :: "string \<Rightarrow> bool" where
  "has_close (a # b # cs) = ((a = CHR ''*'' \<and> b = CHR ''/'') \<or> has_close (b # cs))"
| "has_close _ = False"

fun strip_block_comments :: "bool \<Rightarrow> string \<Rightarrow> string" where
  "strip_block_comments True (a # b # cs) =
     (if a = CHR ''*'' \<and> b = CHR ''/'' then strip_block_comments False cs
      else strip_block_comments True (b # cs))"
| "strip_block_comments True _ = []"
| "strip_block_comments False (a # b # cs) =
     (if a = CHR ''/'' \<and> b = CHR ''*'' \<and> has_close cs then strip_block_comments True cs
      else a # strip_block_comments False (b # cs))"
| "strip_block_comments False cs = cs"

text \<open>
  \<^verbatim>\<open>s.replace(/\/\/.*$/gm, '')\<close>: each \<^verbatim>\<open>//\<close> is removed with the rest of its line.
\<close>

fun strip_line_comments :: "bool \<Rightarrow> string \<Rightarrow> string" where
  "strip_line_comments True (c # cs) =
     (if is_line_terminator c then c # strip_line_comments False cs
      else strip_line_comments True cs)"
| "strip_line_comments True [] = []"
| "strip_line_comments False (a # b # cs) =
     (if a = CHR ''/'' \<and> b = CHR ''/'' then strip_line_comments True cs
      else a # strip_line_comments False (b # cs))"
| "strip_line_comments False cs = cs"

text \<open>
  \<^verbatim>\<open>s.replace(/,(\s*[}\]])/g, '$1')\<close>: a comma is removed when white space and then a
  closing brace or bracket follow it.
\<close>

definition before_close :: "string \<Rightarrow> bool" where
  "before_close cs =
     (case dropWhile is_space cs of [] \<Rightarrow> False | d # _ \<Rightarrow> d = CHR ''}'' \<or> d = CHR '']'')"

fun strip_trailing_commas :: "string \<Rightarrow> string" where
  "strip_trailing_commas [] = []"
| "strip_trailing_commas (c # cs) =
     (if c = CHR '','' \<and> before_close cs then strip_trailing_commas cs
      else c # strip_trailing_commas cs)"

definition cleanJsonResponse :: "string \<Rightarrow> string" where
  "cleanJsonResponse response =
     (let cleanedResponse = trim response;
          cleanedResponse =
            (if startsWith cleanedResponse (replicate 3 (CHR 0x60) @ ''json'')
             then strip_closing_fence (dropWhile is_space (drop 7 cleanedResponse))
             else if startsWith cleanedResponse (replicate 3 (CHR 0x60))
             then strip_closing_fence (dropWhile is_space (drop 3 cleanedResponse))
             else cleanedResponse);
          cleanedResponse = extractJsonFromText cleanedResponse
      in trim (strip_trailing_commas
                 (strip_line_comments False (strip_block_comments False cleanedResponse))))"

section \<open>The platform's JSON parser\<close>

text \<open>
  A model of \<^verbatim>\<open>JSON.parse\<close>, which belongs to the platform and not to the program: the
  grammar of ECMA-404, read in one pass into tokens and in a second pass, with a stack of
  the open arrays and objects, into a value. A number is read exactly. An escape for a code
  unit above 255 is outside the model and reported as such. The text of a syntax error
  depends on the engine; the model has one text for an input that ends too early and one
  for a character that cannot follow.
\<close>

datatype parse_error = UnexpectedEnd | UnexpectedToken | OutsideModel

datatype token =
    TLBrace | TRBrace | TLBrack | TRBrack | TColon | TComma
  | TString string | TNumber rat | TTrue | TFalse | TNull
  | TBad parse_error

definition is_json_space :: "char \<Rightarrow> bool" where
  "is_json_space c \<longleftrightarrow> c = CHR 0x20 \<or> c = CHR 0x09 \<or> c = CHR 0x0A \<or> c = CHR 0x0D"

definition code_unit :: "char \<Rightarrow> nat" where
  "code_unit c = of_char c"

definition is_digit :: "char \<Rightarrow> bool" where
  "is_digit c \<longleftrightarrow> 48 \<le> code_unit c \<and> code_unit c \<le> 57"

definition digit_value :: "char \<Rightarrow> nat" where
  "digit_value c = code_unit c - 48"

definition digits_value :: "string \<Rightarrow> nat" where
  "digits_value ds = foldl (\<lambda>a c. 10 * a + digit_value c) 0 ds"

definition hex_value :: "char \<Rightarrow> nat option" where
  "hex_value c =
     (if is_digit c then Some (digit_value c)
      else if 97 \<le> code_unit c \<and> code_unit c \<le> 102 then Some (code_unit c - 87)
      else if 65 \<le> code_unit c \<and> code_unit c \<le> 70 then Some (code_unit c - 55)
      else None)"

text \<open>The characters of numbers and of the literals \<^verbatim>\<open>true\<close>, \<^verbatim>\<open>false\<close>, \<^verbatim>\<open>null\<close>.\<close>

definition is_word_char :: "char \<Rightarrow> bool" where
  "is_word_char c \<longleftrightarrow>
     is_digit c \<or> (97 \<le> code_unit c \<and> code_unit c \<le> 122) \<or>
     (65 \<le> code_unit c \<and> code_unit c \<le> 90) \<or>
     c = CHR ''-'' \<or> c = CHR ''+'' \<or> c = CHR ''.''"

text \<open>
  A number: an optional minus, an integer part without a leading zero, an optional
  fraction, an optional exponent.
\<close>

definition exponent_of :: "string \<Rightarrow> int option" where
  "exponent_of s =
     (case s of
        [] \<Rightarrow> Some 0
      | e # r \<Rightarrow>
          if e = CHR ''e'' \<or> e = CHR ''E'' then
            (let neg = (case r of [] \<Rightarrow> False | c # _ \<Rightarrow> c = CHR ''-'');
                 ds = (case r of [] \<Rightarrow> []
                       | c # r' \<Rightarrow> if c = CHR ''-'' \<or> c = CHR ''+'' then r' else r)
             in if ds \<noteq> [] \<and> list_all is_digit ds
                then Some (if neg then - int (digits_value ds) else int (digits_value ds))
                else None)
          else None)"

definition scale10 :: "rat \<Rightarrow> int \<Rightarrow> rat" where
  "scale10 x k = (if 0 \<le> k then x * 10 ^ nat k else x / 10 ^ nat (- k))"

definition number_of :: "string \<Rightarrow> rat option" where
  "number_of s =
     (let neg = (case s of [] \<Rightarrow> False | c # _ \<Rightarrow> c = CHR ''-'');
          s1 = (if neg then tl s else s);
          ip = takeWhile is_digit s1;
          r1 = dropWhile is_digit s1;
          has_frac = (case r1 of [] \<Rightarrow> False | c # _ \<Rightarrow> c = CHR ''.'');
          fp = (if has_frac then takeWhile is_digit (tl r1) else []);
          r2 = (if has_frac then dropWhile is_digit (tl r1) else r1)
      in if ip = [] \<or> (hd ip = CHR ''0'' \<and> length ip \<noteq> 1) \<or> (has_frac \<and> fp = []) then None
         else
           (case exponent_of r2 of
              None \<Rightarrow> None
            | Some e \<Rightarrow>
                Some ((if neg then - 1 else 1)
                      * scale10 (of_nat (digits_value (ip @ fp))) (e - int (length fp)))))"

definition word_token :: "string \<Rightarrow> token" where
  "word_token w =
     (if w = ''true'' then TTrue
      else if w = ''false'' then TFalse
      else if w = ''null'' then TNull
      else (case number_of w of Some x \<Rightarrow> TNumber x | None \<Rightarrow> TBad UnexpectedToken))"

text \<open>
  The tokeniser. Its mode says what it is inside of: nothing, a string (with the characters
  read so far, last first), an escape, the four digits of a \<^verbatim>\<open>\u\<close> escape, or a word.
  It stops at the first error, which becomes the last token.
\<close>

datatype lex_mode = Idle | InStr string | InEsc string | InUni string "nat list" | InWord string

definition structural_token :: "char \<Rightarrow> token option" where
  "structural_token c =
     (if c = CHR ''{'' then Some TLBrace
      else if c = CHR ''}'' then Some TRBrace
      else if c = CHR ''['' then Some TLBrack
      else if c = CHR '']'' then Some TRBrack
      else if c = CHR '':'' then Some TColon
      else if c = CHR '','' then Some TComma
      else None)"

definition escape_char :: "char \<Rightarrow> char option" where
  "escape_char c =
     (if c = CHR 0x22 \<or> c = CHR 0x5C \<or> c = CHR ''/'' then Some c
      else if c = CHR ''b'' then Some (CHR 0x08)
      else if c = CHR ''f'' then Some (CHR 0x0C)
      else if c = CHR ''n'' then Some (CHR 0x0A)
      else if c = CHR ''r'' then Some (CHR 0x0D)
      else if c = CHR ''t'' then Some (CHR 0x09)
      else None)"

fun lex :: "lex_mode \<Rightarrow> string \<Rightarrow> token list" where
  "lex Idle [] = []"
| "lex (InWord w) [] = [word_token (rev w)]"
| "lex (InStr acc) [] = [TBad UnexpectedEnd]"
| "lex (InEsc acc) [] = [TBad UnexpectedEnd]"
| "lex (InUni acc ds) [] = [TBad UnexpectedEnd]"
| "lex Idle (c # cs) =
     (if is_json_space c then lex Idle cs
      else if c = CHR 0x22 then lex (InStr []) cs
      else if is_word_char c then lex (InWord [c]) cs
      else (case structural_token c of
              Some t \<Rightarrow> t # lex Idle cs
            | None \<Rightarrow> [TBad UnexpectedToken]))"
| "lex (InWord w) (c # cs) =
     (if is_word_char c then lex (InWord (c # w)) cs
      else if is_json_space c then word_token (rev w) # lex Idle cs
      else if c = CHR 0x22 then word_token (rev w) # lex (InStr []) cs
      else (case structural_token c of
              Some t \<Rightarrow> word_token (rev w) # t # lex Idle cs
            | None \<Rightarrow> [word_token (rev w), TBad UnexpectedToken]))"
| "lex (InStr acc) (c # cs) =
     (if c = CHR 0x22 then TString (rev acc) # lex Idle cs
      else if c = CHR 0x5C then lex (InEsc acc) cs
      else if code_unit c < 32 then [TBad UnexpectedToken]
      else lex (InStr (c # acc)) cs)"
| "lex (InEsc acc) (c # cs) =
     (if c = CHR ''u'' then lex (InUni acc []) cs
      else (case escape_char c of
              Some e \<Rightarrow> lex (InStr (e # acc)) cs
            | None \<Rightarrow> [TBad UnexpectedToken]))"
| "lex (InUni acc ds) (c # cs) =
     (case hex_value c of
        None \<Rightarrow> [TBad UnexpectedToken]
      | Some d \<Rightarrow>
          if length ds < 3 then lex (InUni acc (ds @ [d])) cs
          else
            (let n = foldl (\<lambda>a x. 16 * a + x) 0 (ds @ [d])
             in if n < 256 then lex (InStr (char_of n # acc)) cs else [TBad OutsideModel]))"

text \<open>
  The parser. A frame of the stack is an open array with its elements, last first, an
  open object with its properties and, after a key, that key, or the finished value. A
  repeated key overrides the earlier value in its place.
\<close>

datatype frame =
    FArr "json list"
  | FObj "(string \<times> json) list"
  | FKey "(string \<times> json) list" string
  | FResult json

datatype expect =
  WantValue | WantValueOrClose | WantKey | WantKeyOrClose | WantColon | AfterValue | AtEnd

fun obj_put :: "(string \<times> json) list \<Rightarrow> string \<Rightarrow> json \<Rightarrow> (string \<times> json) list" where
  "obj_put [] k v = [(k, v)]"
| "obj_put (p # ps) k v = (if fst p = k then (k, v) # ps else p # obj_put ps k v)"

text \<open>A value is complete: it goes into the frame on top, or it is the result.\<close>

fun complete :: "json \<Rightarrow> frame list \<Rightarrow> (frame list \<times> expect) option" where
  "complete v [] = Some ([FResult v], AtEnd)"
| "complete v (FArr es # st) = Some (FArr (v # es) # st, AfterValue)"
| "complete v (FKey ps k # st) = Some (FObj (obj_put ps k v) # st, AfterValue)"
| "complete v _ = None"

definition scalar_of :: "token \<Rightarrow> json option" where
  "scalar_of t =
     (case t of
        TString s \<Rightarrow> Some (JStr s)
      | TNumber x \<Rightarrow> Some (JNum (Fin x))
      | TTrue \<Rightarrow> Some (JBool True)
      | TFalse \<Rightarrow> Some (JBool False)
      | TNull \<Rightarrow> Some JNull
      | _ \<Rightarrow> None)"

definition close_array :: "frame list \<Rightarrow> (frame list \<times> expect) option" where
  "close_array st = (case st of FArr es # st' \<Rightarrow> complete (JArr (rev es)) st' | _ \<Rightarrow> None)"

definition close_object :: "frame list \<Rightarrow> (frame list \<times> expect) option" where
  "close_object st = (case st of FObj ps # st' \<Rightarrow> complete (JObj ps) st' | _ \<Rightarrow> None)"

text \<open>One token; \<open>None\<close> when the token cannot follow.\<close>

definition parse_step :: "frame list \<Rightarrow> expect \<Rightarrow> token \<Rightarrow> (frame list \<times> expect) option" where
  "parse_step st e t =
     (case e of
        AtEnd \<Rightarrow> None
      | WantValue \<Rightarrow>
          (if t = TLBrace then Some (FObj [] # st, WantKeyOrClose)
           else if t = TLBrack then Some (FArr [] # st, WantValueOrClose)
           else (case scalar_of t of Some v \<Rightarrow> complete v st | None \<Rightarrow> None))
      | WantValueOrClose \<Rightarrow>
          (if t = TLBrace then Some (FObj [] # st, WantKeyOrClose)
           else if t = TLBrack then Some (FArr [] # st, WantValueOrClose)
           else if t = TRBrack then close_array st
           else (case scalar_of t of Some v \<Rightarrow> complete v st | None \<Rightarrow> None))
      | WantKey \<Rightarrow>
          (case (t, st) of
             (TString k, FObj ps # st') \<Rightarrow> Some (FKey ps k # st', WantColon)
           | _ \<Rightarrow> None)
      | WantKeyOrClose \<Rightarrow>
          (case (t, st) of
             (TString k, FObj ps # st') \<Rightarrow> Some (FKey ps k # st', WantColon)
           | (TRBrace, _) \<Rightarrow> close_object st
           | _ \<Rightarrow> None)
      | WantColon \<Rightarrow> (if t = TColon then Some (st, WantValue) else None)
      | AfterValue \<Rightarrow>
          (case (t, st) of
             (TComma, FArr es # st') \<Rightarrow> Some (st, WantValue)
           | (TComma, FObj ps # st') \<Rightarrow> Some (st, WantKey)
           | (TRBrack, _) \<Rightarrow> close_array st
           | (TRBrace, _) \<Rightarrow> close_object st
           | _ \<Rightarrow> None))"

fun parse_tokens :: "frame list \<Rightarrow> expect \<Rightarrow> token list \<Rightarrow> parse_error + json" where
  "parse_tokens st e [] =
     (case (st, e) of ([FResult v], AtEnd) \<Rightarrow> Inr v | _ \<Rightarrow> Inl UnexpectedEnd)"
| "parse_tokens st e (t # ts) =
     (case t of
        TBad err \<Rightarrow> Inl err
      | _ \<Rightarrow>
          (case parse_step st e t of
             None \<Rightarrow> Inl UnexpectedToken
           | Some (st', e') \<Rightarrow> parse_tokens st' e' ts))"

definition parse_error_message :: "parse_error \<Rightarrow> string" where
  "parse_error_message err =
     (case err of
        UnexpectedEnd \<Rightarrow> ''Unexpected end of JSON input''
      | UnexpectedToken \<Rightarrow> ''Unexpected token in JSON''
      | OutsideModel \<Rightarrow> ''code unit above 255'')"

definition JSON_parse :: "string \<Rightarrow> string + json" where
  "JSON_parse s =
     (case parse_tokens [] WantValue (lex Idle s) of
        Inl err \<Rightarrow> Inl (parse_error_message err)
      | Inr v \<Rightarrow> Inr v)"

section \<open>Repair and retry\<close>

text \<open>
  \<^verbatim>\<open>JSON.parse(s)\<close> followed by the logging of \<^verbatim>\<open>Object.keys(parsed)\<close>, which throws a
  \<^verbatim>\<open>TypeError\<close> when the parsed value is \<^verbatim>\<open>null\<close>; both are inside the same
  \<^verbatim>\<open>try\<close>. The result is the parsed value or the message of what was thrown.
\<close>

definition parse_and_log :: "string \<Rightarrow> string + json" where
  "parse_and_log s =
     (case JSON_parse s of
        Inl message \<Rightarrow> Inl message
      | Inr parsed \<Rightarrow>
          if parsed = JNull then Inl ''Cannot convert undefined or null to object''
          else Inr parsed)"

definition count_char :: "char \<Rightarrow> string \<Rightarrow> nat" where
  "count_char c s = length (filter (\<lambda>x. x = c) s)"

text \<open>The steps of the repair, in the order of the source.\<close>

definition trim_to_first_brace :: "string \<Rightarrow> string" where
  "trim_to_first_brace fixedJson =
     (if \<not> startsWith fixedJson ''{'' then
        (let firstBrace = indexOf fixedJson (CHR ''{'')
         in if firstBrace > 0 then drop (nat firstBrace) fixedJson else fixedJson)
      else fixedJson)"

definition trim_to_last_brace :: "string \<Rightarrow> string" where
  "trim_to_last_brace fixedJson =
     (if \<not> endsWith fixedJson ''}'' then
        (let lastBrace = lastIndexOf fixedJson (CHR ''}'')
         in if lastBrace \<noteq> - 1 then substring fixedJson 0 (lastBrace + 1) else fixedJson)
      else fixedJson)"

definition drop_trailing_comma :: "string \<Rightarrow> string" where
  "drop_trailing_comma fixedJson =
     (if endsWith fixedJson '','' then butlast fixedJson else fixedJson)"

definition balance_braces :: "string \<Rightarrow> string" where
  "balance_braces fixedJson =
     (let openBraces = count_char (CHR ''{'') fixedJson;
          closeBraces = count_char (CHR ''}'') fixedJson
      in if openBraces > closeBraces
         then fixedJson @ replicate (openBraces - closeBraces) (CHR ''}'')
         else fixedJson)"

definition balance_brackets :: "string \<Rightarrow> string" where
  "balance_brackets fixedJson =
     (let openBrackets = count_char (CHR ''['') fixedJson;
          closeBrackets = count_char (CHR '']'') fixedJson
      in if openBrackets > closeBrackets
         then fixedJson @ replicate (openBrackets - closeBrackets) (CHR '']'')
         else fixedJson)"

definition fix_json :: "string \<Rightarrow> string" where
  "fix_json jsonString =
     balance_brackets (balance_braces (drop_trailing_comma
       (trim_to_last_brace (trim_to_first_brace jsonString))))"

definition validateAndParseJson :: "string \<Rightarrow> error + json" where
  "validateAndParseJson jsonString =
     (case parse_and_log jsonString of
        Inr parsed \<Rightarrow> Inr parsed
      | Inl directError \<Rightarrow>
          (case parse_and_log (fix_json jsonString) of
             Inr parsed \<Rightarrow> Inr parsed
           | Inl fixedError \<Rightarrow> Inl (Error (''JSON parsing failed: '' @ directError))))"

section \<open>Model client\<close>

text \<open>
  A prompt is a template literal: its literal pieces and the strings and numbers put
  between them. The decimal rendering of the numbers is left to the platform.
\<close>

datatype chunk = Lit string | Str string | Num jsnum

type_synonym prompt = "chunk list"

text \<open>
  What the one network call does is not decided by the program: \<^verbatim>\<open>fetch\<close> rejects (with a
  message), or answers with a status that is not a success and a body text (or the failure
  of reading it), or answers with a success and a body that \<^verbatim>\<open>response.json()\<close> decodes
  (or fails to).
\<close>

datatype fetch_outcome =
    FetchRejected string
  | HttpError nat "string + string"
  | HttpOk "string + json"

record Env =
  VITE_GEMINI_API_KEY :: "string option"
  fetch :: "string \<Rightarrow> prompt \<Rightarrow> fetch_outcome"

definition GEMINI_API_KEY :: "Env \<Rightarrow> string" where
  "GEMINI_API_KEY env =
     (case VITE_GEMINI_API_KEY env of None \<Rightarrow> ''demo-key'' | Some k \<Rightarrow> or_else k ''demo-key'')"

definition digit_char :: "nat \<Rightarrow> char" where
  "digit_char d = char_of (48 + d)"

fun show_nat :: "nat \<Rightarrow> string" where
  "show_nat n = (if n < 10 then [digit_char n] else show_nat (n div 10) @ [digit_char (n mod 10)])"

text \<open>The envelope checks on the decoded body.\<close>

definition envelope_text :: "json \<Rightarrow> error + string" where
  "envelope_text data =
     (if \<not> truthy data \<or> \<not> truthy (read_prop data ''candidates'') \<or>
         \<not> isArray (read_prop data ''candidates'') \<or>
         length (elems (read_prop data ''candidates'')) = 0
      then Inl (Error ''Unexpected response format: missing candidates array'')
      else
        (let candidate = hd (elems (read_prop data ''candidates''))
         in if \<not> truthy candidate \<or> \<not> truthy (read_prop candidate ''content'') \<or>
               \<not> truthy (read_prop (read_prop candidate ''content'') ''parts'') \<or>
               \<not> isArray (read_prop (read_prop candidate ''content'') ''parts'') \<or>
               length (elems (read_prop (read_prop candidate ''content'') ''parts'')) = 0
            then Inl (Error ''Unexpected response format: missing content or parts'')
            else
              (let part = hd (elems (read_prop (read_prop candidate ''content'') ''parts''))
               in case (truthy part, read_prop part ''text'') of
                    (True, JStr t) \<Rightarrow> Inr t
                  | _ \<Rightarrow>
                      Inl (Error
                        ''Unexpected response format: missing or invalid text content''))))"

text \<open>The body of the \<^verbatim>\<open>try\<close> of \<^verbatim>\<open>makeRequest\<close>, after the network call.\<close>

definition read_response :: "fetch_outcome \<Rightarrow> error + string" where
  "read_response outcome =
     (case outcome of
        FetchRejected message \<Rightarrow> Inl (Error message)
      | HttpError status (Inl message) \<Rightarrow> Inl (Error message)
      | HttpError status (Inr errorText) \<Rightarrow>
          Inl (Error (''Gemini API error: '' @ show_nat status @ '' - '' @ errorText))
      | HttpOk (Inl message) \<Rightarrow> Inl (Error message)
      | HttpOk (Inr data) \<Rightarrow> envelope_text data)"

text \<open>
  \<^verbatim>\<open>makeRequest\<close> returns the text of the model or the error thrown, and the list of the
  network requests it made.
\<close>

definition makeRequest :: "Env \<Rightarrow> prompt \<Rightarrow> (error + string) \<times> (string \<times> prompt) list" where
  "makeRequest env p =
     (if GEMINI_API_KEY env = [] \<or> GEMINI_API_KEY env = ''demo-key''
      then (Inl (Error ''API_KEY_MISSING''), [])
      else
        (case read_response (fetch env (GEMINI_API_KEY env) p) of
           Inr t \<Rightarrow> Inr t
         | Inl (Error message) \<Rightarrow>
             if message = ''API_KEY_MISSING'' then Inl (Error message)
             else if str_includes message ''Unexpected response format'' then Inl (Error message)
             else Inl (Error ''Failed to generate content with AI''),
         [(GEMINI_API_KEY env, p)]))"

section \<open>Orchestration\<close>

text \<open>The prompt of \<^verbatim>\<open>generateDietPlan\<close>.\<close>

definition diet_plan_prompt :: "UserProfile \<Rightarrow> Preferences \<Rightarrow> jsnum \<Rightarrow> prompt" where
  "diet_plan_prompt userProfile preferences dailyCalories =
     [Lit (''Create a complete 7-day diet plan as valid JSON. You MUST include all 7 days (Monday through Sunday).'' @
           [CHR 0x0A, CHR 0x0A] @ ''USER PROFILE:'' @ [CHR 0x0A] @ ''- Age: ''),
      Num (Fin (age userProfile)),
      Lit ('' years'' @ [CHR 0x0A] @ ''- Gender: ''),
      Str (gender userProfile),
      Lit ([CHR 0x0A] @ ''- Goal: ''),
      Str (goal userProfile),
      Lit ([CHR 0x0A] @ ''- Diet Type: ''),
      Str (dietType preferences),
      Lit ([CHR 0x0A] @ ''- Daily Calories: ''),
      Num dailyCalories,
      Lit ([CHR 0x0A] @ ''- Meals per Day: ''),
      Num (Fin (of_int (mealsPerDay preferences))),
      Lit ([CHR 0x0A] @ ''- Allergies: ''),
      Str (or_else (join_comma (allergies userProfile)) ''none''),
      Lit ([CHR 0x0A] @ ''- Activity Level: ''),
      Str (activityLevel userProfile),
      Lit ([CHR 0x0A, CHR 0x0A] @ ''CRITICAL REQUIREMENTS:'' @ [CHR 0x0A] @
           ''1. Generate EXACTLY 7 days (Monday through Sunday)'' @ [CHR 0x0A] @
           ''2. Each day must have EXACTLY ''),
      Num (Fin (of_int (mealsPerDay preferences))),
      Lit ('' meals'' @ [CHR 0x0A] @ ''3. Use ''),
      Str (dietType preferences),
      Lit ('' ingredients only'' @ [CHR 0x0A] @ ''4. Avoid all allergies: ''),
      Str (or_else (join_comma (allergies userProfile)) ''none''),
      Lit ([CHR 0x0A] @ ''5. Target ''),
      Num dailyCalories,
      Lit ('' calories per day'' @ [CHR 0x0A] @
           ''6. Return ONLY valid JSON with no extra text'' @ [CHR 0x0A, CHR 0x0A] @
           ''JSON STRUCTURE (MANDATORY):'' @ [CHR 0x0A] @ ''{'' @ [CHR 0x0A] @ ''  '' @
           [CHR 0x22] @ ''name'' @ [CHR 0x22] @ '': '' @ [CHR 0x22] @ ''7-Day ''),
      Str (replace_underscore (goal userProfile)),
      Lit ('' Diet Plan'' @ [CHR 0x22] @ '','' @ [CHR 0x0A] @ ''  '' @ [CHR 0x22] @
           ''description'' @ [CHR 0x22] @ '': '' @ [CHR 0x22] @
           ''Complete weekly meal plan for ''),
      Str (goal userProfile),
      Lit ([CHR 0x22] @ '','' @ [CHR 0x0A] @ ''  '' @ [CHR 0x22] @ ''totalCalories'' @
           [CHR 0x22] @ '': ''),
      Num dailyCalories,
      Lit ('','' @ [CHR 0x0A] @ ''  '' @ [CHR 0x22] @ ''durationWeeks'' @ [CHR 0x22] @
           '': 1,'' @ [CHR 0x0A] @ ''  '' @ [CHR 0x22] @ ''meals'' @ [CHR 0x22] @ '': ['' @
           [CHR 0x0A] @ ''    {'' @ [CHR 0x0A] @ ''      '' @ [CHR 0x22] @ ''dayNumber'' @
           [CHR 0x22] @ '': 1,'' @ [CHR 0x0A] @ ''      '' @ [CHR 0x22] @ ''dayName'' @
           [CHR 0x22] @ '': '' @ [CHR 0x22] @ ''Monday'' @ [CHR 0x22] @ '','' @ [CHR 0x0A] @
           ''      '' @ [CHR 0x22] @ ''totalDayCalories'' @ [CHR 0x22] @ '': ''),
      Num dailyCalories,
      Lit ('','' @ [CHR 0x0A] @ ''      '' @ [CHR 0x22] @ ''meals'' @ [CHR 0x22] @ '': ['' @
           [CHR 0x0A] @ ''        {'' @ [CHR 0x0A] @ ''          '' @ [CHR 0x22] @ ''name'' @
           [CHR 0x22] @ '': '' @ [CHR 0x22] @ ''Breakfast Name'' @ [CHR 0x22] @ '','' @
           [CHR 0x0A] @ ''          '' @ [CHR 0x22] @ ''description'' @ [CHR 0x22] @ '': '' @
           [CHR 0x22] @ ''Meal description'' @ [CHR 0x22] @ '','' @ [CHR 0x0A] @
           ''          '' @ [CHR 0x22] @ ''mealType'' @ [CHR 0x22] @ '': '' @ [CHR 0x22] @
           ''breakfast'' @ [CHR 0x22] @ '','' @ [CHR 0x0A] @ ''          '' @ [CHR 0x22] @
           ''mealTime'' @ [CHR 0x22] @ '': '' @ [CHR 0x22]),
      Str (case map_of (preferredMealTimes preferences) ''breakfast'' of
             Some t \<Rightarrow> or_else t ''08:00'' | None \<Rightarrow> ''08:00''),
      Lit ([CHR 0x22] @ '','' @ [CHR 0x0A] @ ''          '' @ [CHR 0x22] @ ''calories'' @
           [CHR 0x22] @ '': ''),
      Num (Math_round (num_div dailyCalories (Fin (of_int (mealsPerDay preferences))))),
      Lit ('','' @ [CHR 0x0A] @ ''          '' @ [CHR 0x22] @ ''protein'' @ [CHR 0x22] @
           '': 25,'' @ [CHR 0x0A] @ ''          '' @ [CHR 0x22] @ ''carbs'' @ [CHR 0x22] @
           '': 45,'' @ [CHR 0x0A] @ ''          '' @ [CHR 0x22] @ ''fat'' @ [CHR 0x22] @
           '': 15,'' @ [CHR 0x0A] @ ''          '' @ [CHR 0x22] @ ''ingredients'' @
           [CHR 0x22] @ '': [{'' @ [CHR 0x22] @ ''name'' @ [CHR 0x22] @ '': '' @ [CHR 0x22] @
           ''ingredient'' @ [CHR 0x22] @ '', '' @ [CHR 0x22] @ ''amount'' @ [CHR 0x22] @
           '': '' @ [CHR 0x22] @ ''1'' @ [CHR 0x22] @ '', '' @ [CHR 0x22] @ ''unit'' @
           [CHR 0x22] @ '': '' @ [CHR 0x22] @ ''cup'' @ [CHR 0x22] @ ''}],'' @ [CHR 0x0A] @
           ''          '' @ [CHR 0x22] @ ''instructions'' @ [CHR 0x22] @ '': [{'' @
           [CHR 0x22] @ ''step'' @ [CHR 0x22] @ '': 1, '' @ [CHR 0x22] @ ''instruction'' @
           [CHR 0x22] @ '': '' @ [CHR 0x22] @ ''cooking instruction'' @ [CHR 0x22] @
           ''}],'' @ [CHR 0x0A] @ ''          '' @ [CHR 0x22] @ ''prepTime'' @ [CHR 0x22] @
           '': 10,'' @ [CHR 0x0A] @ ''          '' @ [CHR 0x22] @ ''cookTime'' @ [CHR 0x22] @
           '': 15,'' @ [CHR 0x0A] @ ''          '' @ [CHR 0x22] @ ''difficulty'' @
           [CHR 0x22] @ '': '' @ [CHR 0x22] @ ''easy'' @ [CHR 0x22] @ '','' @ [CHR 0x0A] @
           ''          '' @ [CHR 0x22] @ ''tags'' @ [CHR 0x22] @ '': ['' @ [CHR 0x22] @
           ''healthy'' @ [CHR 0x22] @ '', '' @ [CHR 0x22]),
      Str (dietType preferences),
      Lit ([CHR 0x22] @ ''],'' @ [CHR 0x0A] @ ''          '' @ [CHR 0x22] @ ''cuisineType'' @
           [CHR 0x22] @ '': '' @ [CHR 0x22]),
      Str (case cuisinePreferences preferences of
             [] \<Rightarrow> ''international'' | c # _ \<Rightarrow> or_else c ''international''),
      Lit ([CHR 0x22, CHR 0x0A] @ ''        }'' @ [CHR 0x0A] @ ''      ]'' @ [CHR 0x0A] @
           ''    }'' @ [CHR 0x0A] @ ''  ]'' @ [CHR 0x0A] @ ''}'' @ [CHR 0x0A, CHR 0x0A] @
           ''Generate ALL 7 DAYS with this exact structure. Each day (Monday, Tuesday, Wednesday, Thursday, Friday, Saturday, Sunday) must have ''),
      Num (Fin (of_int (mealsPerDay preferences))),
      Lit ('' complete meals. Return ONLY the JSON object.'')]"

text \<open>
  \<^verbatim>\<open>generateDietPlan\<close>, on the profile and the preferences of its request. The body of the
  \<^verbatim>\<open>try\<close> comes first; the fallback calls in it are inside the \<^verbatim>\<open>try\<close>, so that what
  they throw is caught as well.
\<close>

definition generate_try ::
    "Env \<Rightarrow> UserProfile \<Rightarrow> Preferences \<Rightarrow> jsnum \<Rightarrow> (error + json) \<times> (string \<times> prompt) list" where
  "generate_try env userProfile preferences dailyCalories =
     (case makeRequest env (diet_plan_prompt userProfile preferences dailyCalories) of
        (Inl err, requests) \<Rightarrow> (Inl err, requests)
      | (Inr response, requests) \<Rightarrow>
          (case validateAndParseJson (cleanJsonResponse response) of
             Inl parseError \<Rightarrow>
               (getComprehensiveFallbackDietPlan dailyCalories preferences userProfile, requests)
           | Inr dietPlan \<Rightarrow>
               if \<not> validateDietPlanStructure dietPlan
               then (getComprehensiveFallbackDietPlan dailyCalories preferences userProfile,
                     requests)
               else (Inr dietPlan, requests)))"

definition generateDietPlan ::
    "Env \<Rightarrow> UserProfile \<Rightarrow> Preferences \<Rightarrow> (error + json) \<times> (string \<times> prompt) list" where
  "generateDietPlan env userProfile preferences =
     (let bmr = calculateBMR userProfile;
          dailyCalories =
            calculateDailyCalories bmr (activityLevel userProfile) (goal userProfile)
      in case generate_try env userProfile preferences dailyCalories of
           (Inl err, requests) \<Rightarrow>
             (getComprehensiveFallbackDietPlan dailyCalories preferences userProfile, requests)
         | (Inr dietPlan, requests) \<Rightarrow> (Inr dietPlan, requests))"

section \<open>The caller\<close>

text \<open>
  What \<^verbatim>\<open>generatePlanFromWizard\<close> passes to \<^verbatim>\<open>createDietPlan\<close> for a generated plan
  (without the user and the dates, which come from the session and the clock).
\<close>

record DietPlanInsert =
  plan_name :: json
  plan_description :: json
  total_calories :: json
  duration_weeks :: json
  status :: string
  ai_generated :: bool

definition createDietPlan_argument :: "string \<Rightarrow> json \<Rightarrow> DietPlanInsert" where
  "createDietPlan_argument planName generatedPlan =
     \<lparr> plan_name = (if planName \<noteq> [] then JStr planName else read_prop generatedPlan ''name''),
       plan_description = read_prop generatedPlan ''description'',
       total_calories = read_prop generatedPlan ''totalCalories'',
       duration_weeks = read_prop generatedPlan ''durationWeeks'',
       status = ''active'',
       ai_generated = True \<rparr>"

section \<open>Properties in the words of the specification\<close>

fun nonempty_string :: "json \<Rightarrow> bool" where
  "nonempty_string (JStr s) = (s \<noteq> [])"
| "nonempty_string _ = False"

fun is_object :: "json \<Rightarrow> bool" where
  "is_object (JObj _) = True"
| "is_object _ = False"

fun object_keys :: "json \<Rightarrow> string list" where
  "object_keys (JObj kvs) = map fst kvs"
| "object_keys _ = []"

text \<open>
  A plan the validator is specified to accept: an object of seven days, each an object
  with a non-empty list of meals, each meal an object with a non-empty name, a non-empty
  meal type and numeric calories. Nothing is asked of any other property.
\<close>

definition spec_meal :: "json \<Rightarrow> bool" where
  "spec_meal meal \<longleftrightarrow>
     is_object meal \<and> nonempty_string (read_prop meal ''name'') \<and>
     nonempty_string (read_prop meal ''mealType'') \<and> typeof_number (read_prop meal ''calories'')"

definition spec_day :: "json \<Rightarrow> bool" where
  "spec_day day \<longleftrightarrow>
     is_object day \<and> isArray (read_prop day ''meals'') \<and> elems (read_prop day ''meals'') \<noteq> [] \<and>
     list_all spec_meal (elems (read_prop day ''meals''))"

definition spec_plan :: "json \<Rightarrow> bool" where
  "spec_plan plan \<longleftrightarrow>
     is_object plan \<and> isArray (read_prop plan ''meals'') \<and>
     length (elems (read_prop plan ''meals'')) = 7 \<and>
     list_all spec_day (elems (read_prop plan ''meals''))"

text \<open>
  What is claimed of every generated plan: seven days, each with at least one meal, each
  meal with a non-empty name, one of the four meal types, and calories that are a number
  not below zero.
\<close>

fun nonneg_number :: "json \<Rightarrow> bool" where
  "nonneg_number (JNum (Fin x)) = (0 \<le> x)"
| "nonneg_number (JNum PosInf) = True"
| "nonneg_number _ = False"

definition recognized_mealType :: "json \<Rightarrow> bool" where
  "recognized_mealType t \<longleftrightarrow>
     t = JStr ''breakfast'' \<or> t = JStr ''lunch'' \<or> t = JStr ''dinner'' \<or> t = JStr ''snack''"

definition claimed_meal :: "json \<Rightarrow> bool" where
  "claimed_meal meal \<longleftrightarrow>
     nonempty_string (read_prop meal ''name'') \<and> recognized_mealType (read_prop meal ''mealType'') \<and>
     nonneg_number (read_prop meal ''calories'')"

definition claimed_day :: "json \<Rightarrow> bool" where
  "claimed_day day \<longleftrightarrow>
     elems (read_prop day ''meals'') \<noteq> [] \<and> list_all claimed_meal (elems (read_prop day ''meals''))"

definition claimed_plan :: "json \<Rightarrow> bool" where
  "claimed_plan plan \<longleftrightarrow>
     length (elems (read_prop plan ''meals'')) = 7 \<and>
     list_all claimed_day (elems (read_prop plan ''meals''))"

text \<open>
  What holds of the fallback plan: seven days, each with at least one meal, each meal with
  a non-empty name, one of the four meal types, and the given calories.
\<close>

definition caloriesPerMeal :: "jsnum \<Rightarrow> Preferences \<Rightarrow> jsnum" where
  "caloriesPerMeal dailyCalories preferences =
     Math_round (num_div dailyCalories (Fin (of_int (mealsPerDay preferences))))"

definition described_meal :: "jsnum \<Rightarrow> json \<Rightarrow> bool" where
  "described_meal share meal \<longleftrightarrow>
     nonempty_string (read_prop meal ''name'') \<and> recognized_mealType (read_prop meal ''mealType'') \<and>
     read_prop meal ''calories'' = JNum share"

definition described_day :: "jsnum \<Rightarrow> json \<Rightarrow> bool" where
  "described_day share day \<longleftrightarrow>
     elems (read_prop day ''meals'') \<noteq> [] \<and>
     list_all (described_meal share) (elems (read_prop day ''meals''))"

definition described_plan :: "jsnum \<Rightarrow> json \<Rightarrow> bool" where
  "described_plan share plan \<longleftrightarrow>
     length (elems (read_prop plan ''meals'')) = 7 \<and>
     list_all (described_day share) (elems (read_prop plan ''meals''))"

definition target_calories :: "UserProfile \<Rightarrow> jsnum" where
  "target_calories userProfile =
     calculateDailyCalories (calculateBMR userProfile) (activityLevel userProfile)
       (goal userProfile)"

section \<open>Example inputs\<close>

definition minimal_meal :: json where
  "minimal_meal =
     JObj [(''name'', JStr ''Toast''), (''mealType'', JStr ''breakfast''),
           (''calories'', JNum (Fin 300))]"

definition minimal_day :: "json list \<Rightarrow> json" where
  "minimal_day ms = JObj [(''meals'', JArr ms)]"

definition minimal_plan :: json where
  "minimal_plan = JObj [(''meals'', JArr (replicate 7 (minimal_day [minimal_meal])))]"

definition six_day_plan :: json where
  "six_day_plan = JObj [(''meals'', JArr (replicate 6 (minimal_day [minimal_meal])))]"

definition empty_day3_plan :: json where
  "empty_day3_plan =
     JObj [(''meals'', JArr ((replicate 7 (minimal_day [minimal_meal])) [2 := minimal_day []]))]"

text \<open>An environment without a key, and one with a key whose network call answers a text.\<close>

definition no_key_env :: Env where
  "no_key_env = \<lparr> VITE_GEMINI_API_KEY = None, fetch = (\<lambda>k p. FetchRejected ''offline'') \<rparr>"

definition envelope :: "string \<Rightarrow> json" where
  "envelope t =
     JObj [(''candidates'',
            JArr [JObj [(''content'', JObj [(''parts'', JArr [JObj [(''text'', JStr t)]])])]])]"

definition answering_env :: "string \<Rightarrow> Env" where
  "answering_env t =
     \<lparr> VITE_GEMINI_API_KEY = Some ''secret'', fetch = (\<lambda>k p. HttpOk (Inr (envelope t))) \<rparr>"

definition failing_env :: Env where
  "failing_env =
     \<lparr> VITE_GEMINI_API_KEY = Some ''secret'',
       fetch = (\<lambda>k p. HttpError 503 (Inr ''unavailable'')) \<rparr>"

text \<open>
  A model answer of seven days with one meal each, whose meal type is none of the four
  and whose calories are negative.
\<close>

definition brunch_day_text :: string where
  \<open>brunch_day_text = ''{"meals":[{"name":"Toast","mealType":"brunch","calories":-5}]}''\<close>

definition brunch_text :: string where
  \<open>brunch_text =
     ''{"meals":['' @ brunch_day_text @ '','' @ brunch_day_text @ '','' @ brunch_day_text @ '',''
       @ brunch_day_text @ '','' @ brunch_day_text @ '','' @ brunch_day_text @ '',''
       @ brunch_day_text @ '']}''\<close>

definition brunch_meal :: json where
  "brunch_meal =
     JObj [(''name'', JStr ''Toast''), (''mealType'', JStr ''brunch''),
           (''calories'', JNum (Fin (- 5)))]"

definition brunch_plan :: json where
  "brunch_plan = JObj [(''meals'', JArr (replicate 7 (minimal_day [brunch_meal])))]"

definition example_preferences :: Preferences where
  "example_preferences =
     \<lparr> dietType = ''vegetarian'', cuisinePreferences = [''Italian''], tastePreferences = [],
       foodRestrictions = [], mealsPerDay = 3, preferredMealTimes = [] \<rparr>"

section \<open>Caloric model: results\<close>

lemma floor_rat_numeral_div:
  "\<lfloor>(numeral a :: rat) / numeral b\<rfloor> = numeral a div numeral b"
  using floor_divide_of_int_eq [of "numeral a" "numeral b", where ?'a = rat] by simp

lemma calculateBMR_spec: "calculateBMR p = spec_BMR p"
  by (simp add: calculateBMR_def spec_BMR_def)

lemma tdee_of_own_or_absent:
  "level \<notin> set Object_prototype_keys \<Longrightarrow>
   tdee_of bmr level = Fin (bmr * spec_activityFactor level)"
  by (simp add: tdee_of_def activityMultipliers_def spec_activityFactor_def)

lemma calculateDailyCalories_formula:
  assumes "activityLevel p \<notin> set Object_prototype_keys"
  shows "calculateDailyCalories (calculateBMR p) (activityLevel p) (goal p) = spec_target p"
  using tdee_of_own_or_absent [OF assms, of "spec_BMR p"]
  by (simp add: calculateDailyCalories_def calculateBMR_spec spec_target_def
      spec_goalAdjustment_def num_sub_def)

lemma example_profile_target:
  "calculateBMR example_profile = 1780 \<and>
   calculateDailyCalories (calculateBMR example_profile) (activityLevel example_profile)
     (goal example_profile) = Fin 2136"
  by (simp add: calculateBMR_def example_profile_def calculateDailyCalories_def tdee_of_def
      activityMultipliers_def floor_rat_numeral_div)

text \<open>
  C4. The calorie target is specified as the rounded product of the basal rate and the
  activity factor plus the goal adjustment, the factor being 1.2 for every activity level
  outside the table. For the activity level \<^verbatim>\<open>toString\<close>, which is not in the table, the
  code reads an inherited property and returns \<^verbatim>\<open>NaN\<close>, where the specified target for
  the example profile is 2136.
\<close>

theorem calculateDailyCalories_inherited_level:
  "calculateDailyCalories (calculateBMR (example_profile\<lparr>activityLevel := ''toString''\<rparr>))
     ''toString'' ''maintenance'' = NaN \<and>
   spec_target (example_profile\<lparr>activityLevel := ''toString''\<rparr>) = Fin 2136"
  by (simp add: calculateBMR_def example_profile_def calculateDailyCalories_def tdee_of_def
      activityMultipliers_def Object_prototype_keys_def spec_target_def spec_BMR_def
      spec_activityFactor_def spec_goalAdjustment_def floor_rat_numeral_div)

section \<open>Plan validator and fallback generator: results\<close>

lemma template_names:
  "list_all (\<lambda>t. name t \<noteq> []) breakfast_templates"
  "list_all (\<lambda>t. name t \<noteq> []) lunch_templates"
  "list_all (\<lambda>t. name t \<noteq> []) dinner_templates"
  "list_all (\<lambda>t. name t \<noteq> []) snack_templates"
  by (simp_all add: breakfast_templates_def lunch_templates_def dinner_templates_def
      snack_templates_def)

lemma template_counts:
  "length breakfast_templates = 7" "length lunch_templates = 7"
  "length dinner_templates = 7" "length snack_templates = 5"
  by (simp_all add: breakfast_templates_def lunch_templates_def dinner_templates_def
      snack_templates_def)

lemma mealTemplates_names: "list_all (\<lambda>t. name t \<noteq> []) (mealTemplates mt)"
  by (simp add: mealTemplates_def template_names)

lemma templates_nonempty:
  "breakfast_templates \<noteq> []" "lunch_templates \<noteq> []"
  "dinner_templates \<noteq> []" "snack_templates \<noteq> []"
  using template_counts by auto

lemma mealTemplates_nonempty: "0 < length (mealTemplates mt)"
  by (simp add: mealTemplates_def templates_nonempty)

lemma selected_template_name:
  "name (mealTemplates mt ! (d mod length (mealTemplates mt))) \<noteq> []"
proof -
  have "d mod length (mealTemplates mt) < length (mealTemplates mt)"
    using mealTemplates_nonempty by simp
  then show ?thesis
    using mealTemplates_names [of mt] by (simp add: list_all_length)
qed

lemma fallback_meal_fields:
  "read_prop (fallback_meal c p d mt) ''name''
     = JStr (name (mealTemplates mt ! (d mod length (mealTemplates mt))))"
  "read_prop (fallback_meal c p d mt) ''mealType'' = JStr mt"
  "read_prop (fallback_meal c p d mt) ''calories'' = JNum c"
  by (simp_all add: fallback_meal_def Let_def)

lemma fallback_meal_truthy: "truthy (fallback_meal c p d mt)"
  by (simp add: fallback_meal_def Let_def)

lemma validate_meals_fallback:
  "list_all (\<lambda>mt. mt \<noteq> []) mts \<Longrightarrow> validate_meals (map (fallback_meal c p d) mts)"
  by (induction mts) (simp_all add: fallback_meal_fields fallback_meal_truthy selected_template_name)

lemma mealTypes_entries: "list_all (\<lambda>mt. mt \<noteq> []) (mealTypes m)"
  by (simp add: mealTypes_def)

lemma slice0_entries: "list_all P xs \<Longrightarrow> list_all P (slice0 xs e)"
  by (auto simp: slice0_def Let_def list_all_iff dest: in_set_takeD)

lemma fallback_day_meals:
  "read_prop (fallback_day dc p d) ''meals'' =
     JArr (map (fallback_meal (Math_round (num_div dc (Fin (of_int (mealsPerDay p))))) p (fst d))
             (slice0 (mealTypes (mealsPerDay p)) (mealsPerDay p)))"
  by (cases d) (simp add: fallback_day_def)

lemma fallback_day_truthy: "truthy (fallback_day dc p d)"
  by (cases d) (simp add: fallback_day_def)

lemma validate_days_fallback:
  "validate_days (map (fallback_day dc p) ds) \<longleftrightarrow>
     ds = [] \<or> slice0 (mealTypes (mealsPerDay p)) (mealsPerDay p) \<noteq> []"
  by (induction ds)
     (auto simp: fallback_day_meals fallback_day_truthy validate_meals_fallback slice0_entries
        mealTypes_entries)

lemma fallbackPlan_meals:
  "read_prop (fallbackPlan dc p u) ''meals'' = JArr (map (fallback_day dc p) (enumerate 0 days))"
  by (simp add: fallbackPlan_def)

lemma fallbackPlan_valid_iff:
  "validateDietPlanStructure (fallbackPlan dc p u) \<longleftrightarrow>
     slice0 (mealTypes (mealsPerDay p)) (mealsPerDay p) \<noteq> []"
proof -
  have "truthy (fallbackPlan dc p u)" "typeof_object (fallbackPlan dc p u)"
    by (simp_all add: fallbackPlan_def)
  moreover have "length (enumerate 0 days) = 7" "enumerate 0 days \<noteq> []"
    by (simp_all add: days_def)
  ultimately show ?thesis
    by (simp add: validateDietPlanStructure_def fallbackPlan_meals validate_days_fallback)
qed

lemma slice0_mealTypes:
  assumes "1 \<le> m"
  shows "slice0 (mealTypes m) m =
           take (nat (min m 5)) [''breakfast'', ''lunch'', ''dinner'', ''snack'', ''snack'']"
proof -
  consider "m = 1" | "m = 2" | "m = 3" | "m = 4" | "5 \<le> m" using assms by linarith
  then show ?thesis
    by cases (simp_all add: slice0_def mealTypes_def Let_def)
qed

lemma slice0_mealTypes_neg:
  assumes "m < 0"
  shows "slice0 (mealTypes m) m = take (nat (3 + m)) [''breakfast'', ''lunch'', ''dinner'']"
proof -
  consider "m = -1" | "m = -2" | "m \<le> -3" using assms by linarith
  then show ?thesis
    by cases (simp_all add: slice0_def mealTypes_def Let_def)
qed

lemma slice0_mealTypes_zero: "slice0 (mealTypes 0) 0 = []"
  by (simp add: slice0_def mealTypes_def)

lemma slice0_mealTypes_nonempty_iff:
  "slice0 (mealTypes m) m \<noteq> [] \<longleftrightarrow> 1 \<le> m \<or> m = -1 \<or> m = -2"
proof -
  consider "1 \<le> m" | "m = 0" | "m = -1" | "m = -2" | "m \<le> -3" by linarith
  then show ?thesis
  proof cases
    case 1
    then show ?thesis by (simp add: slice0_mealTypes)
  next
    case 2
    then show ?thesis by (simp add: slice0_mealTypes_zero)
  next
    case 3
    then show ?thesis by (simp add: slice0_mealTypes_neg)
  next
    case 4
    then show ?thesis by (simp add: slice0_mealTypes_neg)
  next
    case 5
    then show ?thesis by (simp add: slice0_mealTypes_neg)
  qed
qed

lemma validate_meals_iff: "validate_meals ms \<longleftrightarrow> list_all meal_ok ms"
  by (induction ms) (auto simp: meal_ok_def)

lemma validate_days_iff: "validate_days ds \<longleftrightarrow> list_all day_ok ds"
proof (induction ds)
  case Nil
  then show ?case by simp
next
  case (Cons d ds)
  have "truthy (read_prop d ''meals'')" if "isArray (read_prop d ''meals'')"
    using that by (cases "read_prop d ''meals''") simp_all
  with Cons show ?case
    by (auto simp: day_ok_def validate_meals_iff)
qed

lemma validateDietPlanStructure_iff: "validateDietPlanStructure plan \<longleftrightarrow> plan_ok plan"
proof -
  have "truthy (read_prop plan ''meals'')" if "isArray (read_prop plan ''meals'')"
    using that by (cases "read_prop plan ''meals''") simp_all
  then show ?thesis
    by (auto simp: validateDietPlanStructure_def plan_ok_def validate_days_iff)
qed

lemma plan_mealTypes_fallbackPlan:
  "plan_mealTypes (fallbackPlan dc p u) =
     replicate 7 (map JStr (slice0 (mealTypes (mealsPerDay p)) (mealsPerDay p)))"
  by (simp add: plan_mealTypes_def fallbackPlan_meals fallback_day_meals days_def
      fallback_meal_fields comp_def eval_nat_numeral)

text \<open>
  C8. For a number of meals per day between 3 and 6 (and any target calories) the fallback
  generator does not throw: it returns the plan it built, and that plan passes the
  validator, so it has exactly 7 days, each with a non-empty list of meals, each meal with
  a name, a meal type and numeric calories.
\<close>

theorem fallback_never_fails:
  assumes "3 \<le> mealsPerDay p" and "mealsPerDay p \<le> 6"
  shows "getComprehensiveFallbackDietPlan dc p u = Inr (fallbackPlan dc p u) \<and>
         validateDietPlanStructure (fallbackPlan dc p u) \<and>
         plan_ok (fallbackPlan dc p u)"
proof -
  have "slice0 (mealTypes (mealsPerDay p)) (mealsPerDay p) \<noteq> []"
    using assms by (simp add: slice0_mealTypes_nonempty_iff)
  then have v: "validateDietPlanStructure (fallbackPlan dc p u)"
    by (simp add: fallbackPlan_valid_iff)
  then show ?thesis
    using validateDietPlanStructure_iff [of "fallbackPlan dc p u"]
    by (simp add: getComprehensiveFallbackDietPlan_def)
qed

theorem fallback_never_fails_witness:
  "3 \<le> mealsPerDay example_preferences \<and> mealsPerDay example_preferences \<le> 6 \<and>
   getComprehensiveFallbackDietPlan (Fin 2136) example_preferences example_profile
     = Inr (fallbackPlan (Fin 2136) example_preferences example_profile) \<and>
   validateDietPlanStructure (fallbackPlan (Fin 2136) example_preferences example_profile)"
  using fallback_never_fails [of example_preferences "Fin 2136" example_profile]
  by (simp add: example_preferences_def)

text \<open>
  C9, as amended. For every number of meals per day from 1 on, the fallback generator
  returns a plan each of whose seven days holds the first \<open>min mealsPerDay 5\<close> entries of
  breakfast, lunch, dinner, snack, snack; from 6 on no further meal is added and a day has
  5 meals.
\<close>

theorem fallback_meals_per_day:
  assumes "1 \<le> mealsPerDay p"
  shows "getComprehensiveFallbackDietPlan dc p u = Inr (fallbackPlan dc p u) \<and>
         plan_mealTypes (fallbackPlan dc p u) =
           replicate 7 (map JStr (take (nat (min (mealsPerDay p) 5))
             [''breakfast'', ''lunch'', ''dinner'', ''snack'', ''snack''])) \<and>
         list_all (\<lambda>ts. int (length ts) = min (mealsPerDay p) 5)
           (plan_mealTypes (fallbackPlan dc p u))"
proof -
  have "slice0 (mealTypes (mealsPerDay p)) (mealsPerDay p) \<noteq> []"
    using assms by (simp add: slice0_mealTypes_nonempty_iff)
  then have "getComprehensiveFallbackDietPlan dc p u = Inr (fallbackPlan dc p u)"
    by (simp add: getComprehensiveFallbackDietPlan_def fallbackPlan_valid_iff)
  moreover have "plan_mealTypes (fallbackPlan dc p u) =
      replicate 7 (map JStr (take (nat (min (mealsPerDay p) 5))
        [''breakfast'', ''lunch'', ''dinner'', ''snack'', ''snack'']))"
    using assms by (simp add: plan_mealTypes_fallbackPlan slice0_mealTypes)
  moreover have "int (length (take (nat (min (mealsPerDay p) 5))
      [''breakfast'', ''lunch'', ''dinner'', ''snack'', ''snack''])) = min (mealsPerDay p) 5"
    using assms by simp
  ultimately show ?thesis
    by (simp add: list_all_length)
qed

theorem fallback_meals_per_day_witness:
  "1 \<le> mealsPerDay (example_preferences\<lparr>mealsPerDay := 6\<rparr>) \<and>
   plan_mealTypes (fallbackPlan (Fin 2136) (example_preferences\<lparr>mealsPerDay := 6\<rparr>)
       example_profile) =
     replicate 7 [JStr ''breakfast'', JStr ''lunch'', JStr ''dinner'', JStr ''snack'',
       JStr ''snack'']"
  using fallback_meals_per_day [of "example_preferences\<lparr>mealsPerDay := 6\<rparr>" "Fin 2136"
      example_profile]
  by simp

theorem fallback_negative_mealsPerDay:
  "getComprehensiveFallbackDietPlan (Fin 2136) (example_preferences\<lparr>mealsPerDay := - 1\<rparr>)
       example_profile
     = Inr (fallbackPlan (Fin 2136) (example_preferences\<lparr>mealsPerDay := - 1\<rparr>)
         example_profile) \<and>
   plan_mealTypes (fallbackPlan (Fin 2136) (example_preferences\<lparr>mealsPerDay := - 1\<rparr>)
       example_profile) = replicate 7 [JStr ''breakfast'', JStr ''lunch''] \<and>
   int (length [JStr ''breakfast'', JStr ''lunch'']) \<noteq> min (- 1) 5"
  by (simp add: getComprehensiveFallbackDietPlan_def fallbackPlan_valid_iff
      plan_mealTypes_fallbackPlan slice0_mealTypes_neg)

section \<open>Balanced-brace extraction: results\<close>

lemma scan_escaped:
  "scan (CHR 0x5C # c # rest) i bc s q False = scan rest (Suc (Suc i)) bc s q False"
  by simp

lemma scan_inside_string:
  "c \<noteq> CHR 0x22 \<Longrightarrow> c \<noteq> CHR 0x5C \<Longrightarrow>
   scan (c # rest) i bc s True False = scan rest (Suc i) bc s True False"
  by simp

lemma scan_step:
  assumes "\<not> (\<not> esc \<and> c \<noteq> CHR 0x5C \<and> c \<noteq> CHR 0x22 \<and> \<not> q \<and> c = CHR ''}'' \<and>
              bc - 1 = 0 \<and> s \<noteq> - 1)"
  shows "\<exists>bc' s'' q' esc'.
           scan (c # rest) i bc s q esc = scan rest (Suc i) bc' s'' q' esc' \<and>
           (s'' = s \<or> (s'' = int i \<and> c = CHR ''{''))"
proof -
  consider (esc) "esc" | (bs) "\<not> esc" "c = CHR 0x5C"
    | (quote) "\<not> esc" "c \<noteq> CHR 0x5C" "c = CHR 0x22"
    | (instr) "\<not> esc" "c \<noteq> CHR 0x5C" "c \<noteq> CHR 0x22" "q"
    | (opn) "\<not> esc" "\<not> q" "c = CHR ''{''"
    | (cls) "\<not> esc" "\<not> q" "c = CHR ''}''"
    | (other) "\<not> esc" "c \<noteq> CHR 0x5C" "c \<noteq> CHR 0x22" "\<not> q" "c \<noteq> CHR ''{''"
        "c \<noteq> CHR ''}''"
    by blast
  then show ?thesis
  proof cases
    case esc
    then show ?thesis by simp blast
  next
    case bs
    then show ?thesis by simp blast
  next
    case quote
    then show ?thesis by simp blast
  next
    case instr
    then show ?thesis by simp blast
  next
    case opn
    then show ?thesis by simp blast
  next
    case cls
    then show ?thesis using assms by simp blast
  next
    case other
    then show ?thesis by simp blast
  qed
qed

lemma scan_span:
  assumes "scan cs i bc s q esc = (s', e')" and "e' \<noteq> - 1"
    and "s = - 1 \<or> (0 \<le> s \<and> nat s < i \<and> (pre @ cs) ! nat s = CHR ''{'')"
    and "length pre = i"
  shows "0 \<le> s' \<and> s' < e' \<and> nat e' < length (pre @ cs) \<and>
         (pre @ cs) ! nat s' = CHR ''{'' \<and> (pre @ cs) ! nat e' = CHR ''}''"
  using assms
proof (induction cs arbitrary: i bc s q esc pre)
  case Nil
  then show ?case by simp
next
  case (Cons c rest)
  let ?pre = "pre @ [c]"
  have len: "length ?pre = Suc i" using Cons.prems(4) by simp
  have app: "?pre @ rest = pre @ c # rest" by simp
  have at_i: "(pre @ c # rest) ! i = c" using Cons.prems(4) by (simp add: nth_append)
  have keep: "s = - 1 \<or> (0 \<le> s \<and> nat s < Suc i \<and> (?pre @ rest) ! nat s = CHR ''{'')"
    using Cons.prems(3) by auto
  have new: "c = CHR ''{'' \<Longrightarrow>
      int i = - 1 \<or> (0 \<le> int i \<and> nat (int i) < Suc i \<and> (?pre @ rest) ! nat (int i) = CHR ''{'')"
    using at_i by simp
  have IH: "\<And>bc' s'' q' esc'. scan rest (Suc i) bc' s'' q' esc' = (s', e') \<Longrightarrow>
      s'' = - 1 \<or> (0 \<le> s'' \<and> nat s'' < Suc i \<and> (?pre @ rest) ! nat s'' = CHR ''{'') \<Longrightarrow>
      0 \<le> s' \<and> s' < e' \<and> nat e' < length (pre @ c # rest) \<and>
      (pre @ c # rest) ! nat s' = CHR ''{'' \<and> (pre @ c # rest) ! nat e' = CHR ''}''"
    using Cons.IH [OF _ Cons.prems(2) _ len] app by metis
  show ?case
  proof (cases "\<not> esc \<and> c \<noteq> CHR 0x5C \<and> c \<noteq> CHR 0x22 \<and> \<not> q \<and> c = CHR ''}'' \<and>
                bc - 1 = 0 \<and> s \<noteq> - 1")
    case True
    then have "s' = s" "e' = int i" using Cons.prems(1) by auto
    moreover have "0 \<le> s \<and> nat s < i \<and> (pre @ c # rest) ! nat s = CHR ''{''"
      using True Cons.prems(3) by auto
    ultimately show ?thesis using at_i True Cons.prems(4) by auto
  next
    case False
    from scan_step [OF False, of rest i] obtain bc' s'' q' esc' where
      step: "scan (c # rest) i bc s q esc = scan rest (Suc i) bc' s'' q' esc'" and
      start: "s'' = s \<or> (s'' = int i \<and> c = CHR ''{'')"
      by blast
    have "s'' = - 1 \<or> (0 \<le> s'' \<and> nat s'' < Suc i \<and> (?pre @ rest) ! nat s'' = CHR ''{'')"
      using start keep new by auto
    moreover have "scan rest (Suc i) bc' s'' q' esc' = (s', e')"
      using step Cons.prems(1) by simp
    ultimately show ?thesis by (rule IH [rotated])
  qed
qed


lemma scan_step_depth:
  assumes "1 \<le> bc" and "s \<noteq> - 1"
    and "\<not> (\<not> esc \<and> c \<noteq> CHR 0x5C \<and> c \<noteq> CHR 0x22 \<and> \<not> q \<and> c = CHR ''}'' \<and> bc - 1 = 0)"
  shows "\<exists>bc' q' esc'.
           scan (c # rest) i bc s q esc = scan rest (Suc i) bc' s q' esc' \<and>
           depths (c # rest) bc q esc = bc' # depths rest bc' q' esc' \<and> 1 \<le> bc'"
proof -
  consider (esc) "esc" | (bs) "\<not> esc" "c = CHR 0x5C"
    | (quote) "\<not> esc" "c \<noteq> CHR 0x5C" "c = CHR 0x22"
    | (instr) "\<not> esc" "c \<noteq> CHR 0x5C" "c \<noteq> CHR 0x22" "q"
    | (opn) "\<not> esc" "\<not> q" "c = CHR ''{''"
    | (cls) "\<not> esc" "\<not> q" "c = CHR ''}''"
    | (other) "\<not> esc" "c \<noteq> CHR 0x5C" "c \<noteq> CHR 0x22" "\<not> q" "c \<noteq> CHR ''{''"
        "c \<noteq> CHR ''}''"
    by blast
  then show ?thesis
  proof cases
    case esc
    then show ?thesis using assms(1) by simp blast
  next
    case bs
    then show ?thesis using assms(1) by simp blast
  next
    case quote
    then show ?thesis using assms(1) by simp blast
  next
    case instr
    then show ?thesis using assms(1) by simp blast
  next
    case opn
    then have "scan (c # rest) i bc s q esc = scan rest (Suc i) (bc + 1) s q False"
      and "depths (c # rest) bc q esc = (bc + 1) # depths rest (bc + 1) q False"
      using assms(1) by simp_all
    moreover have "1 \<le> bc + 1" using assms(1) by simp
    ultimately show ?thesis by blast
  next
    case cls
    then have "scan (c # rest) i bc s q esc = scan rest (Suc i) (bc - 1) s q False"
      and "depths (c # rest) bc q esc = (bc - 1) # depths rest (bc - 1) q False"
      using assms by simp_all
    moreover have "1 \<le> bc - 1" using assms cls by simp
    ultimately show ?thesis by blast
  next
    case other
    then show ?thesis using assms(1) by simp blast
  qed
qed

lemma scan_end_depth:
  assumes "scan cs i bc s q esc = (s', e')" and "e' \<noteq> - 1" and "s \<noteq> - 1" and "1 \<le> bc"
  shows "s' = s \<and> int i \<le> e' \<and> depths cs bc q esc ! nat (e' - int i) = 0 \<and>
         (\<forall>j < nat (e' - int i). 1 \<le> depths cs bc q esc ! j)"
  using assms
proof (induction cs arbitrary: i bc q esc)
  case Nil
  then show ?case by simp
next
  case (Cons c rest)
  show ?case
  proof (cases "\<not> esc \<and> c \<noteq> CHR 0x5C \<and> c \<noteq> CHR 0x22 \<and> \<not> q \<and> c = CHR ''}'' \<and> bc - 1 = 0")
    case True
    then have "s' = s" "e' = int i" using Cons.prems(1,3) by auto
    then show ?thesis using True by simp
  next
    case False
    from scan_step_depth [OF Cons.prems(4) Cons.prems(3) False, of rest i]
    obtain bc' q' esc' where
      step: "scan (c # rest) i bc s q esc = scan rest (Suc i) bc' s q' esc'" and
      dep: "depths (c # rest) bc q esc = bc' # depths rest bc' q' esc'" and
      pos: "1 \<le> bc'"
      by blast
    have "scan rest (Suc i) bc' s q' esc' = (s', e')" using step Cons.prems(1) by simp
    from Cons.IH [OF this Cons.prems(2) Cons.prems(3) pos]
    have ih: "s' = s" "int (Suc i) \<le> e'"
      "depths rest bc' q' esc' ! nat (e' - int (Suc i)) = 0"
      "\<forall>j < nat (e' - int (Suc i)). 1 \<le> depths rest bc' q' esc' ! j"
      by simp_all
    have idx: "nat (e' - int i) = Suc (nat (e' - int (Suc i)))" using ih(2) by simp
    have "\<forall>j < Suc (nat (e' - int (Suc i))). 1 \<le> (bc' # depths rest bc' q' esc') ! j"
    proof (intro allI impI)
      fix j assume "j < Suc (nat (e' - int (Suc i)))"
      then show "1 \<le> (bc' # depths rest bc' q' esc') ! j"
        using pos ih(4) by (cases j) simp_all
    qed
    then show ?thesis using ih dep idx by simp
  qed
qed

lemma scan_plain_prefix:
  "list_all plain pre \<Longrightarrow>
   scan (pre @ cs) i 0 (- 1) False False = scan cs (i + length pre) 0 (- 1) False False"
  by (induction pre arbitrary: i) (simp_all add: plain_def)

lemma scan_from_open:
  "scan (CHR ''{'' # rest) i 0 (- 1) False False = scan rest (Suc i) 1 (int i) False False"
  by simp

lemma depths_from_open:
  "depths (CHR ''{'' # rest) 0 False False = 1 # depths rest 1 False False"
  by simp

lemma scan_matching_close:
  assumes "list_all plain pre"
    and "scan (pre @ CHR ''{'' # rest) 0 0 (- 1) False False = (s', e')" and "e' \<noteq> - 1"
  shows "s' = int (length pre) \<and> s' < e' \<and>
         depths (CHR ''{'' # rest) 0 False False ! nat (e' - s') = 0 \<and>
         (\<forall>j < nat (e' - s'). 1 \<le> depths (CHR ''{'' # rest) 0 False False ! j)"
proof -
  have "scan rest (Suc (length pre)) 1 (int (length pre)) False False = (s', e')"
    using assms(1,2) by (simp add: scan_plain_prefix)
  from scan_end_depth [OF this assms(3)]
  have r: "s' = int (length pre)" "int (Suc (length pre)) \<le> e'"
    "depths rest 1 False False ! nat (e' - int (Suc (length pre))) = 0"
    "\<forall>j < nat (e' - int (Suc (length pre))). 1 \<le> depths rest 1 False False ! j"
    by simp_all
  have idx: "nat (e' - s') = Suc (nat (e' - int (Suc (length pre))))" using r(1,2) by simp
  have "\<forall>j < Suc (nat (e' - int (Suc (length pre)))). 1 \<le> (1 # depths rest 1 False False) ! j"
  proof (intro allI impI)
    fix j assume "j < Suc (nat (e' - int (Suc (length pre))))"
    then show "1 \<le> (1 # depths rest 1 False False) ! j"
      using r(4) by (cases j) simp_all
  qed
  then show ?thesis using r idx by (simp del: depths.simps add: depths_from_open)
qed

lemma extractJsonFromText_span:
  assumes "scan text 0 0 (- 1) False False = (s', e')" and "e' \<noteq> - 1"
  shows "0 \<le> s' \<and> s' < e' \<and> nat e' < length text \<and> text ! nat s' = CHR ''{'' \<and>
         text ! nat e' = CHR ''}'' \<and>
         extractJsonFromText text = take (nat (e' - s' + 1)) (drop (nat s') text)"
proof -
  have sp: "0 \<le> s' \<and> s' < e' \<and> nat e' < length ([] @ text) \<and>
      ([] @ text) ! nat s' = CHR ''{'' \<and> ([] @ text) ! nat e' = CHR ''}''"
    by (rule scan_span [OF assms]) simp_all
  then have "s' \<noteq> - 1" by auto
  then have "extractJsonFromText text = substring text s' (e' + 1)"
    using assms by (simp add: extractJsonFromText_def)
  moreover have "e' + 1 - s' = e' - s' + 1" by simp
  ultimately show ?thesis using sp by (simp add: substring_def)
qed

lemma extract_example:
  \<open>extractJsonFromText ''prefix {"a": {"b": "}"}, "c": 1} suffix'' = ''{"a": {"b": "}"}, "c": 1}''\<close>
  by (simp add: extractJsonFromText_def substring_def)

lemma extract_escaped_quote:
  "extractJsonFromText (''x {'' @ [CHR 0x22, CHR 0x5C, CHR 0x22] @ ''}'' @ [CHR 0x22] @ ''} y'')
     = ''{'' @ [CHR 0x22, CHR 0x5C, CHR 0x22] @ ''}'' @ [CHR 0x22] @ ''}''"
  by (simp add: extractJsonFromText_def substring_def)

lemma scan_after_start:
  assumes "s \<noteq> - 1" and "1 \<le> bc"
  shows "scan cs i bc s q esc =
           (s, case first_index (\<lambda>d. d = 0) (depths cs bc q esc) of
                 None \<Rightarrow> - 1 | Some j \<Rightarrow> int (i + j))"
  using assms
proof (induction cs arbitrary: i bc q esc)
  case Nil
  then show ?case by simp
next
  case (Cons c rest)
  show ?case
  proof (cases "\<not> esc \<and> c \<noteq> CHR 0x5C \<and> c \<noteq> CHR 0x22 \<and> \<not> q \<and> c = CHR ''}'' \<and> bc - 1 = 0")
    case True
    then show ?thesis using Cons.prems by simp
  next
    case False
    from scan_step_depth [OF Cons.prems(2) Cons.prems(1) False, of rest i]
    obtain bc' q' esc' where
      step: "scan (c # rest) i bc s q esc = scan rest (Suc i) bc' s q' esc'" and
      dep: "depths (c # rest) bc q esc = bc' # depths rest bc' q' esc'" and
      pos: "1 \<le> bc'"
      by blast
    have nz: "bc' \<noteq> 0" using pos by simp
    show ?thesis
      unfolding step dep Cons.IH [OF Cons.prems(1) pos]
      using nz by (simp split: option.splits)
  qed
qed

lemma scan_step_before:
  assumes "bc \<le> 0"
    and "\<not> (\<not> esc \<and> c \<noteq> CHR 0x5C \<and> c \<noteq> CHR 0x22 \<and> \<not> q \<and> c = CHR ''{'' \<and> bc = 0)"
  shows "\<exists>bc' q' esc'.
           scan (c # rest) i bc (- 1) q esc = scan rest (Suc i) bc' (- 1) q' esc' \<and>
           depths (c # rest) bc q esc = bc' # depths rest bc' q' esc' \<and> bc' \<le> 0"
proof -
  consider (esc) "esc" | (bs) "\<not> esc" "c = CHR 0x5C"
    | (quote) "\<not> esc" "c \<noteq> CHR 0x5C" "c = CHR 0x22"
    | (instr) "\<not> esc" "c \<noteq> CHR 0x5C" "c \<noteq> CHR 0x22" "q"
    | (opn) "\<not> esc" "\<not> q" "c = CHR ''{''"
    | (cls) "\<not> esc" "\<not> q" "c = CHR ''}''"
    | (other) "\<not> esc" "c \<noteq> CHR 0x5C" "c \<noteq> CHR 0x22" "\<not> q" "c \<noteq> CHR ''{''"
        "c \<noteq> CHR ''}''"
    by blast
  then show ?thesis
  proof cases
    case esc
    then show ?thesis using assms(1) by simp blast
  next
    case bs
    then show ?thesis using assms(1) by simp blast
  next
    case quote
    then show ?thesis using assms(1) by simp blast
  next
    case instr
    then show ?thesis using assms(1) by simp blast
  next
    case opn
    then have "bc \<noteq> 0" using assms(2) by auto
    then have "scan (c # rest) i bc (- 1) q esc = scan rest (Suc i) (bc + 1) (- 1) q False"
      and "depths (c # rest) bc q esc = (bc + 1) # depths rest (bc + 1) q False"
      using opn by simp_all
    moreover have "bc + 1 \<le> 0" using assms(1) \<open>bc \<noteq> 0\<close> by simp
    ultimately show ?thesis by blast
  next
    case cls
    then have "scan (c # rest) i bc (- 1) q esc = scan rest (Suc i) (bc - 1) (- 1) q False"
      and "depths (c # rest) bc q esc = (bc - 1) # depths rest (bc - 1) q False"
      by simp_all
    moreover have "bc - 1 \<le> 0" using assms(1) by simp
    ultimately show ?thesis by blast
  next
    case other
    then show ?thesis using assms(1) by simp blast
  qed
qed

lemma scan_before_start:
  assumes "bc \<le> 0"
  shows "scan cs i bc (- 1) q esc = span_of_depths i bc (depths cs bc q esc)"
  using assms
proof (induction cs arbitrary: i bc q esc)
  case Nil
  then show ?case by (simp add: span_of_depths_def)
next
  case (Cons c rest)
  show ?case
  proof (cases "\<not> esc \<and> c \<noteq> CHR 0x5C \<and> c \<noteq> CHR 0x22 \<and> \<not> q \<and> c = CHR ''{'' \<and> bc = 0")
    case True
    then have sc: "scan (c # rest) i bc (- 1) q esc = scan rest (Suc i) 1 (int i) False False"
      and dp: "depths (c # rest) bc q esc = 1 # depths rest 1 False False"
      by simp_all
    have "scan rest (Suc i) 1 (int i) False False =
        (int i, case first_index (\<lambda>d. d = 0) (depths rest 1 False False) of
                  None \<Rightarrow> - 1 | Some j \<Rightarrow> int (Suc i + j))"
      by (rule scan_after_start) simp_all
    then show ?thesis
      unfolding sc dp using True
      by (simp add: span_of_depths_def opens_def split: option.splits)
  next
    case False
    from scan_step_before [OF Cons.prems False, of rest i]
    obtain bc' q' esc' where
      step: "scan (c # rest) i bc (- 1) q esc = scan rest (Suc i) bc' (- 1) q' esc'" and
      dep: "depths (c # rest) bc q esc = bc' # depths rest bc' q' esc'" and
      neg: "bc' \<le> 0"
      by blast
    have no: "\<not> opens (bc, bc')" using neg by (simp add: opens_def)
    show ?thesis
      unfolding step dep Cons.IH [OF neg]
      using no by (simp add: span_of_depths_def split: option.splits)
  qed
qed

text \<open>
  The scan is the span of the depths, for every text: its start is the first position
  where the depth goes from zero to one, its end the first position after the start where
  the depth is back to zero, and \<open>- 1\<close> stands for a start or an end that was not found.
\<close>

lemma scan_total:
  "scan input 0 0 (- 1) False False = span_of_depths 0 0 (depths input 0 False False)"
  by (rule scan_before_start) simp

text \<open>
  The steps of the scan and its result when it finds an end, together.
\<close>

lemma extractJsonFromText_balanced:
  \<open>scan (CHR 0x5C # c # rest) i bc s q False = scan rest (Suc (Suc i)) bc s q False \<and>
   (d \<noteq> CHR 0x22 \<and> d \<noteq> CHR 0x5C \<longrightarrow>
      scan (d # rest) i bc s True False = scan rest (Suc i) bc s True False) \<and>
   (scan input 0 0 (- 1) False False = (s', e') \<and> e' \<noteq> - 1 \<longrightarrow>
      0 \<le> s' \<and> s' < e' \<and> nat e' < length input \<and> input ! nat s' = CHR ''{'' \<and>
      input ! nat e' = CHR ''}'' \<and>
      extractJsonFromText input = take (nat (e' - s' + 1)) (drop (nat s') input)) \<and>
   (list_all plain pre \<and> scan (pre @ CHR ''{'' # tail) 0 0 (- 1) False False = (a, b) \<and>
    b \<noteq> - 1 \<longrightarrow>
      a = int (length pre) \<and> a < b \<and>
      depths (CHR ''{'' # tail) 0 False False ! nat (b - a) = 0 \<and>
      (\<forall>j < nat (b - a). 1 \<le> depths (CHR ''{'' # tail) 0 False False ! j)) \<and>
   extractJsonFromText ''prefix {"a": {"b": "}"}, "c": 1} suffix''
     = ''{"a": {"b": "}"}, "c": 1}''\<close>
  using scan_escaped [of c rest i bc s q] scan_inside_string [of d rest i bc s]
    extractJsonFromText_span [of input s' e'] scan_matching_close [of pre tail a b]
    extract_example
  by blast

lemma extractJsonFromText_balanced_example:
  \<open>list_all plain ''prefix '' \<and>
   scan (''prefix '' @ CHR ''{'' # ''"a": {"b": "}"}, "c": 1} suffix'') 0 0 (- 1) False False
     = (7, 31) \<and>
   depths (CHR ''{'' # ''"a": {"b": "}"}, "c": 1} suffix'') 0 False False ! 24 = 0 \<and>
   extractJsonFromText (''prefix '' @ CHR ''{'' # ''"a": {"b": "}"}, "c": 1} suffix'')
     = take 25 (drop 7 (''prefix '' @ CHR ''{'' # ''"a": {"b": "}"}, "c": 1} suffix''))\<close>
  using extractJsonFromText_balanced
    [where pre = "''prefix ''" and tail = \<open>''"a": {"b": "}"}, "c": 1} suffix''\<close>
       and a = 7 and b = 31
       and input = \<open>''prefix '' @ CHR ''{'' # ''"a": {"b": "}"}, "c": 1} suffix''\<close>
       and s' = 7 and e' = 31]
  by (simp add: plain_def)

text \<open>
  C5. The extractor is specified to return the span from the first top-level opening
  brace to the closing brace that matches it. In the text \<^verbatim>\<open>} {"a": {"b": 1}}\<close> the first
  opening brace stands at index 2 and its matching closing brace at index 16. The scan
  reads that opening brace when its brace count is \<open>- 1\<close>, so it does not record it; it
  takes the inner opening brace at index 8 as the start and the closing brace at index 15
  as the end, and the extractor returns the inner object \<^verbatim>\<open>{"b": 1}\<close>. The second
  strategy, which is not reached, would return the outer object. On the text
  \<^verbatim>\<open>prefix {"a": {"b": "}"}, "c": 1} suffix\<close> the whole outer object is returned.
\<close>

theorem extractJsonFromText_stray_close:
  \<open>scan ''} {"a": {"b": 1}}'' 0 0 (- 1) False False = (8, 15) \<and>
   depths ''} {"a": {"b": 1}}'' 0 False False
     = [- 1, - 1, 0, 0, 0, 0, 0, 0, 1, 1, 1, 1, 1, 1, 1, 0, - 1] \<and>
   extractJsonFromText ''} {"a": {"b": 1}}'' = ''{"b": 1}'' \<and>
   substring ''} {"a": {"b": 1}}'' 2 17 = ''{"a": {"b": 1}}'' \<and>
   substring ''} {"a": {"b": 1}}'' (indexOf ''} {"a": {"b": 1}}'' (CHR ''{''))
       (lastIndexOf ''} {"a": {"b": 1}}'' (CHR ''}'') + 1)
     = ''{"a": {"b": 1}}'' \<and>
   extractJsonFromText ''prefix {"a": {"b": "}"}, "c": 1} suffix''
     = ''{"a": {"b": "}"}, "c": 1}''\<close>
  by (simp add: extractJsonFromText_def substring_def indexOf_def lastIndexOf_def)

text \<open>
  C10. The model client throws \<^verbatim>\<open>API_KEY_MISSING\<close> when no key is configured (the variable
  is unset or empty) and when the configured key is the placeholder \<^verbatim>\<open>demo-key\<close>, and in
  these cases it makes no network request; with any other key it makes exactly one.
\<close>

theorem makeRequest_key_missing:
  "(VITE_GEMINI_API_KEY env = None \<or> VITE_GEMINI_API_KEY env = Some [] \<or>
    VITE_GEMINI_API_KEY env = Some ''demo-key'' \<longrightarrow>
      makeRequest env p = (Inl (Error ''API_KEY_MISSING''), [])) \<and>
   (VITE_GEMINI_API_KEY env = Some k \<and> k \<noteq> [] \<and> k \<noteq> ''demo-key'' \<longrightarrow>
      snd (makeRequest env p) = [(k, p)])"
  by (auto simp: makeRequest_def GEMINI_API_KEY_def or_else_def)

theorem makeRequest_key_missing_witness:
  "makeRequest \<lparr>VITE_GEMINI_API_KEY = None, fetch = (\<lambda>k p. FetchRejected ''offline'')\<rparr> []
     = (Inl (Error ''API_KEY_MISSING''), []) \<and>
   makeRequest \<lparr>VITE_GEMINI_API_KEY = Some ''demo-key'', fetch = (\<lambda>k p. FetchRejected ''offline'')\<rparr> []
     = (Inl (Error ''API_KEY_MISSING''), []) \<and>
   snd (makeRequest \<lparr>VITE_GEMINI_API_KEY = Some ''abc'', fetch = (\<lambda>k p. FetchRejected ''offline'')\<rparr> [])
     = [(''abc'', [])]"
  using makeRequest_key_missing
      [of "\<lparr>VITE_GEMINI_API_KEY = None, fetch = (\<lambda>k p. FetchRejected ''offline'')\<rparr>" "[]"]
    makeRequest_key_missing
      [of "\<lparr>VITE_GEMINI_API_KEY = Some ''demo-key'', fetch = (\<lambda>k p. FetchRejected ''offline'')\<rparr>"
          "[]"]
    makeRequest_key_missing
      [of "\<lparr>VITE_GEMINI_API_KEY = Some ''abc'', fetch = (\<lambda>k p. FetchRejected ''offline'')\<rparr>"
          "[]" "''abc''"]
  by simp


section \<open>Orchestration: results\<close>

lemma spec_meal_ok: "spec_meal meal \<Longrightarrow> meal_ok meal"
  by (cases meal; cases "read_prop meal ''name''"; cases "read_prop meal ''mealType''")
     (simp_all add: spec_meal_def meal_ok_def)

lemma spec_day_ok: "spec_day day \<Longrightarrow> day_ok day"
  by (cases day) (auto simp: spec_day_def day_ok_def list_all_iff dest: spec_meal_ok)

lemma spec_plan_ok: "spec_plan plan \<Longrightarrow> plan_ok plan"
  by (cases plan) (auto simp: spec_plan_def plan_ok_def list_all_iff dest: spec_day_ok)

lemma mealTypes_recognized: "list_all (\<lambda>mt. recognized_mealType (JStr mt)) (mealTypes m)"
  by (simp add: mealTypes_def recognized_mealType_def)

lemma fallback_meal_claimed:
  "recognized_mealType (JStr mt) \<Longrightarrow> nonneg_number (JNum c) \<Longrightarrow>
   claimed_meal (fallback_meal c p d mt)"
  by (simp add: claimed_meal_def fallback_meal_fields selected_template_name)

lemma fallback_day_claimed:
  assumes "slice0 (mealTypes (mealsPerDay p)) (mealsPerDay p) \<noteq> []"
    and "nonneg_number (JNum (Math_round (num_div dc (Fin (of_int (mealsPerDay p))))))"
  shows "claimed_day (fallback_day dc p d)"
proof -
  have "list_all (\<lambda>mt. recognized_mealType (JStr mt))
          (slice0 (mealTypes (mealsPerDay p)) (mealsPerDay p))"
    by (rule slice0_entries [OF mealTypes_recognized])
  then show ?thesis
    using assms
    by (simp add: claimed_day_def fallback_day_meals list_all_iff fallback_meal_claimed)
qed

lemma fallbackPlan_claimed:
  assumes "slice0 (mealTypes (mealsPerDay p)) (mealsPerDay p) \<noteq> []"
    and "nonneg_number (JNum (Math_round (num_div dc (Fin (of_int (mealsPerDay p))))))"
  shows "claimed_plan (fallbackPlan dc p u)"
  using fallback_day_claimed [OF assms]
  by (simp add: claimed_plan_def fallbackPlan_meals days_def list_all_iff)

lemma generateDietPlan_cases:
  "fst (generateDietPlan env u p) =
     (case fst (makeRequest env (diet_plan_prompt u p (target_calories u))) of
        Inl err \<Rightarrow> getComprehensiveFallbackDietPlan (target_calories u) p u
      | Inr response \<Rightarrow>
          (case validateAndParseJson (cleanJsonResponse response) of
             Inl parseError \<Rightarrow> getComprehensiveFallbackDietPlan (target_calories u) p u
           | Inr dietPlan \<Rightarrow>
               if validateDietPlanStructure dietPlan then Inr dietPlan
               else getComprehensiveFallbackDietPlan (target_calories u) p u))"
  by (cases "getComprehensiveFallbackDietPlan (target_calories u) p u")
     (auto simp: generateDietPlan_def generate_try_def target_calories_def Let_def
        split: prod.splits sum.splits)

lemma generateDietPlan_requests:
  "snd (generateDietPlan env u p) =
     snd (makeRequest env (diet_plan_prompt u p (target_calories u)))"
  by (auto simp: generateDietPlan_def generate_try_def target_calories_def Let_def
      split: prod.splits sum.splits)

lemma makeRequest_errors:
  "fst (makeRequest env q) = Inl (Error m) \<Longrightarrow>
   m = ''API_KEY_MISSING'' \<or> m = ''Failed to generate content with AI'' \<or>
   str_includes m ''Unexpected response format''"
  by (auto simp: makeRequest_def split: if_splits sum.splits error.splits)

lemma makeRequest_without_key:
  "VITE_GEMINI_API_KEY env = None \<or> VITE_GEMINI_API_KEY env = Some [] \<or>
   VITE_GEMINI_API_KEY env = Some ''demo-key'' \<Longrightarrow>
   makeRequest env q = (Inl (Error ''API_KEY_MISSING''), [])"
  by (auto simp: makeRequest_def GEMINI_API_KEY_def or_else_def)

lemma fallback_error:
  "getComprehensiveFallbackDietPlan dc p u = Inl e \<Longrightarrow>
   e = Error ''Fallback diet plan generation failed - this should never happen'' \<and>
   \<not> validateDietPlanStructure (fallbackPlan dc p u)"
  by (auto simp: getComprehensiveFallbackDietPlan_def split: if_splits)

lemma fallback_result:
  "getComprehensiveFallbackDietPlan dc p u = Inr plan \<Longrightarrow>
   plan = fallbackPlan dc p u \<and> validateDietPlanStructure plan"
  by (auto simp: getComprehensiveFallbackDietPlan_def split: if_splits)

lemma generateDietPlan_result:
  "fst (generateDietPlan env u p) = Inr plan \<Longrightarrow> validateDietPlanStructure plan"
  by (auto simp: generateDietPlan_cases split: sum.splits if_splits dest: fallback_result)

lemma generateDietPlan_error:
  "fst (generateDietPlan env u p) = Inl e \<Longrightarrow>
   getComprehensiveFallbackDietPlan (target_calories u) p u = Inl e"
  by (auto simp: generateDietPlan_cases split: sum.splits if_splits)

lemma example_target: "target_calories example_profile = Fin 2136"
  unfolding target_calories_def using example_profile_target by blast

lemma fallbackPlan_keys:
  "object_keys (fallbackPlan dc p u) =
     [''name'', ''description'', ''totalCalories'', ''durationWeeks'', ''meals'']"
  by (simp add: fallbackPlan_def)

lemma fallbackPlan_totalCalories: "read_prop (fallbackPlan dc p u) ''totalCalories'' = JNum dc"
  by (simp add: fallbackPlan_def)

lemma fallbackPlan_no_flag: "read_prop (fallbackPlan dc p u) ''aiGenerated'' = JUndefined"
  by (simp add: fallbackPlan_def)

lemma brunch_clean: "cleanJsonResponse brunch_text = brunch_text"
  by code_simp

lemma brunch_parse: "JSON_parse brunch_text = Inr brunch_plan"
  by code_simp

lemma brunch_valid: "validateDietPlanStructure brunch_plan \<and> \<not> claimed_plan brunch_plan"
  by (simp add: validateDietPlanStructure_iff plan_ok_def day_ok_def meal_ok_def brunch_plan_def
      minimal_day_def brunch_meal_def claimed_plan_def claimed_day_def claimed_meal_def
      recognized_mealType_def eval_nat_numeral)

lemma answering_env_request:
  "fst (makeRequest (answering_env t) q) = Inr t"
  by (simp add: makeRequest_def answering_env_def GEMINI_API_KEY_def or_else_def read_response_def
      envelope_text_def envelope_def Let_def)


text \<open>
  C3. The validator rejects a value whose list of days has a length other than 7, a value
  one of whose days has an empty list of meals, and a value one of whose meals fails its
  test; it accepts every object of seven days in which each day has a non-empty list of
  meals and each meal a non-empty name, a non-empty meal type and numeric calories,
  whatever else the meals have or lack. It accepts a value exactly when every check holds.
\<close>

theorem validateDietPlanStructure_checks:
  "(length (elems (read_prop plan ''meals'')) \<noteq> 7 \<longrightarrow> \<not> validateDietPlanStructure plan) \<and>
   (day \<in> set (elems (read_prop plan ''meals'')) \<and> elems (read_prop day ''meals'') = [] \<longrightarrow>
      \<not> validateDietPlanStructure plan) \<and>
   (day \<in> set (elems (read_prop plan ''meals'')) \<and> meal \<in> set (elems (read_prop day ''meals'')) \<and>
    \<not> meal_ok meal \<longrightarrow> \<not> validateDietPlanStructure plan) \<and>
   (spec_plan plan \<longrightarrow> validateDietPlanStructure plan) \<and>
   (validateDietPlanStructure plan \<longleftrightarrow> plan_ok plan)"
  using spec_plan_ok [of plan]
  by (auto simp: validateDietPlanStructure_iff plan_ok_def day_ok_def list_all_iff)

theorem validateDietPlanStructure_checks_witness:
  "\<not> validateDietPlanStructure six_day_plan \<and> \<not> validateDietPlanStructure empty_day3_plan \<and>
   spec_plan minimal_plan \<and> validateDietPlanStructure minimal_plan \<and>
   object_keys minimal_meal = [''name'', ''mealType'', ''calories'']"
  using validateDietPlanStructure_checks [of six_day_plan]
    validateDietPlanStructure_checks [of empty_day3_plan "minimal_day []"]
    validateDietPlanStructure_checks [of minimal_plan]
  by (simp add: six_day_plan_def empty_day3_plan_def minimal_plan_def minimal_day_def
      minimal_meal_def spec_plan_def spec_day_def spec_meal_def eval_nat_numeral)

text \<open>
  C2. Whatever the model client throws (the missing key, the failed transport, the
  malformed envelope), a response that cannot be parsed and a parsed value that fails the
  validator all end in the result of the fallback generator. The model client throws
  nothing but these three errors. An error comes out of \<^verbatim>\<open>generateDietPlan\<close> only when
  the fallback generator fails its own validation, and it is that error.
\<close>

theorem generateDietPlan_recovers:
  "(fst (makeRequest env q) = Inl (Error m) \<longrightarrow>
      m = ''API_KEY_MISSING'' \<or> m = ''Failed to generate content with AI'' \<or>
      str_includes m ''Unexpected response format'') \<and>
   (fst (makeRequest env (diet_plan_prompt u p (target_calories u))) = Inl err \<longrightarrow>
      fst (generateDietPlan env u p)
        = getComprehensiveFallbackDietPlan (target_calories u) p u) \<and>
   (fst (makeRequest env (diet_plan_prompt u p (target_calories u))) = Inr response \<and>
    validateAndParseJson (cleanJsonResponse response) = Inl parseError \<longrightarrow>
      fst (generateDietPlan env u p)
        = getComprehensiveFallbackDietPlan (target_calories u) p u) \<and>
   (fst (makeRequest env (diet_plan_prompt u p (target_calories u))) = Inr response \<and>
    validateAndParseJson (cleanJsonResponse response) = Inr dietPlan \<and>
    \<not> validateDietPlanStructure dietPlan \<longrightarrow>
      fst (generateDietPlan env u p)
        = getComprehensiveFallbackDietPlan (target_calories u) p u) \<and>
   (fst (generateDietPlan env u p) = Inl e \<longrightarrow>
      e = Error ''Fallback diet plan generation failed - this should never happen'' \<and>
      getComprehensiveFallbackDietPlan (target_calories u) p u = Inl e \<and>
      \<not> validateDietPlanStructure (fallbackPlan (target_calories u) p u))"
proof -
  have "fst (generateDietPlan env u p) = Inl e \<longrightarrow>
      e = Error ''Fallback diet plan generation failed - this should never happen'' \<and>
      getComprehensiveFallbackDietPlan (target_calories u) p u = Inl e \<and>
      \<not> validateDietPlanStructure (fallbackPlan (target_calories u) p u)"
    using generateDietPlan_error [of env u p e] fallback_error [of "target_calories u" p u e]
    by blast
  then show ?thesis
    using makeRequest_errors [of env q m]
    by (simp add: generateDietPlan_cases)
qed

theorem generateDietPlan_recovers_witness:
  "fst (generateDietPlan no_key_env example_profile example_preferences)
     = Inr (fallbackPlan (Fin 2136) example_preferences example_profile) \<and>
   fst (generateDietPlan failing_env example_profile example_preferences)
     = Inr (fallbackPlan (Fin 2136) example_preferences example_profile) \<and>
   fst (generateDietPlan (answering_env ''oops'') example_profile example_preferences)
     = Inr (fallbackPlan (Fin 2136) example_preferences example_profile) \<and>
   fst (generateDietPlan (answering_env ''{}'') example_profile example_preferences)
     = Inr (fallbackPlan (Fin 2136) example_preferences example_profile) \<and>
   fst (generateDietPlan no_key_env example_profile (example_preferences\<lparr>mealsPerDay := 0\<rparr>))
     = Inl (Error ''Fallback diet plan generation failed - this should never happen'')"
proof -
  let ?q = "diet_plan_prompt example_profile example_preferences (target_calories example_profile)"
  have fb: "getComprehensiveFallbackDietPlan (target_calories example_profile) example_preferences
      example_profile = Inr (fallbackPlan (Fin 2136) example_preferences example_profile)"
    by (simp add: getComprehensiveFallbackDietPlan_def fallbackPlan_valid_iff
        slice0_mealTypes_nonempty_iff example_preferences_def example_target)
  have r1: "fst (makeRequest no_key_env ?q) = Inl (Error ''API_KEY_MISSING'')"
    by (simp add: makeRequest_without_key no_key_env_def)
  have r2: "fst (makeRequest failing_env ?q) = Inl (Error ''Failed to generate content with AI'')"
    by (simp add: makeRequest_def failing_env_def GEMINI_API_KEY_def or_else_def
        read_response_def startsWith_def)
  have p3: "validateAndParseJson (cleanJsonResponse ''oops'')
      = Inl (Error ''JSON parsing failed: Unexpected token in JSON'')"
    by code_simp
  have p4: "validateAndParseJson (cleanJsonResponse ''{}'') = Inr (JObj [])"
    by code_simp
  have v4: "\<not> validateDietPlanStructure (JObj [])"
    by (simp add: validateDietPlanStructure_def)
  have fb0: "getComprehensiveFallbackDietPlan (target_calories example_profile)
      (example_preferences\<lparr>mealsPerDay := 0\<rparr>) example_profile
      = Inl (Error ''Fallback diet plan generation failed - this should never happen'')"
    by (simp add: getComprehensiveFallbackDietPlan_def fallbackPlan_valid_iff
        slice0_mealTypes_nonempty_iff)
  have r5: "fst (makeRequest no_key_env (diet_plan_prompt example_profile
      (example_preferences\<lparr>mealsPerDay := 0\<rparr>) (target_calories example_profile)))
      = Inl (Error ''API_KEY_MISSING'')"
    by (simp add: makeRequest_without_key no_key_env_def)
  note T = generateDietPlan_recovers
  have w1: "fst (generateDietPlan no_key_env example_profile example_preferences)
      = getComprehensiveFallbackDietPlan (target_calories example_profile) example_preferences
          example_profile"
    by (rule T [THEN conjunct2, THEN conjunct1, rule_format, OF r1])
  have w2: "fst (generateDietPlan failing_env example_profile example_preferences)
      = getComprehensiveFallbackDietPlan (target_calories example_profile) example_preferences
          example_profile"
    by (rule T [THEN conjunct2, THEN conjunct1, rule_format, OF r2])
  have w3: "fst (generateDietPlan (answering_env ''oops'') example_profile example_preferences)
      = getComprehensiveFallbackDietPlan (target_calories example_profile) example_preferences
          example_profile"
    by (rule T [THEN conjunct2, THEN conjunct2, THEN conjunct1, rule_format,
          OF conjI [OF answering_env_request p3]])
  have w4: "fst (generateDietPlan (answering_env ''{}'') example_profile example_preferences)
      = getComprehensiveFallbackDietPlan (target_calories example_profile) example_preferences
          example_profile"
    by (rule T [THEN conjunct2, THEN conjunct2, THEN conjunct2, THEN conjunct1, rule_format,
          OF conjI [OF answering_env_request conjI [OF p4 v4]]])
  have w5: "fst (generateDietPlan no_key_env example_profile
        (example_preferences\<lparr>mealsPerDay := 0\<rparr>))
      = getComprehensiveFallbackDietPlan (target_calories example_profile)
          (example_preferences\<lparr>mealsPerDay := 0\<rparr>) example_profile"
    by (rule T [THEN conjunct2, THEN conjunct1, rule_format, OF r5])
  show ?thesis
    unfolding w1 w2 w3 w4 w5 fb fb0 by (intro conjI refl)
qed

text \<open>
  C7, as amended. Without a key (the variable unset or empty, or the placeholder) and with
  3 meals per day, \<^verbatim>\<open>generateDietPlan\<close> makes no request and returns the fallback plan: 7
  days, each with breakfast, lunch and dinner, and the total calories of the caloric model.
  The plan has the properties name, description, totalCalories, durationWeeks and meals,
  and none that tells a fallback plan from a plan of the model.
\<close>

theorem generateDietPlan_without_key:
  "(VITE_GEMINI_API_KEY env = None \<or> VITE_GEMINI_API_KEY env = Some [] \<or>
    VITE_GEMINI_API_KEY env = Some ''demo-key'') \<and> mealsPerDay p = 3 \<longrightarrow>
     generateDietPlan env u p = (Inr (fallbackPlan (target_calories u) p u), []) \<and>
     length (elems (read_prop (fallbackPlan (target_calories u) p u) ''meals'')) = 7 \<and>
     plan_mealTypes (fallbackPlan (target_calories u) p u)
       = replicate 7 [JStr ''breakfast'', JStr ''lunch'', JStr ''dinner''] \<and>
     read_prop (fallbackPlan (target_calories u) p u) ''totalCalories''
       = JNum (target_calories u) \<and>
     object_keys (fallbackPlan (target_calories u) p u)
       = [''name'', ''description'', ''totalCalories'', ''durationWeeks'', ''meals'']"
proof (intro impI, elim conjE)
  assume key: "VITE_GEMINI_API_KEY env = None \<or> VITE_GEMINI_API_KEY env = Some [] \<or>
      VITE_GEMINI_API_KEY env = Some ''demo-key''"
    and m: "mealsPerDay p = 3"
  let ?q = "diet_plan_prompt u p (target_calories u)"
  have req: "makeRequest env ?q = (Inl (Error ''API_KEY_MISSING''), [])"
    by (rule makeRequest_without_key [OF key])
  have fb: "getComprehensiveFallbackDietPlan (target_calories u) p u
      = Inr (fallbackPlan (target_calories u) p u)"
    using m
    by (simp add: getComprehensiveFallbackDietPlan_def fallbackPlan_valid_iff
        slice0_mealTypes_nonempty_iff)
  have "fst (generateDietPlan env u p) = Inr (fallbackPlan (target_calories u) p u)"
    by (simp add: generateDietPlan_cases req fb)
  moreover have "snd (generateDietPlan env u p) = []"
    by (simp add: generateDietPlan_requests req)
  ultimately have gen: "generateDietPlan env u p = (Inr (fallbackPlan (target_calories u) p u), [])"
    by (simp add: prod_eq_iff)
  have types: "plan_mealTypes (fallbackPlan (target_calories u) p u)
      = replicate 7 [JStr ''breakfast'', JStr ''lunch'', JStr ''dinner'']"
    using m by (simp add: plan_mealTypes_fallbackPlan slice0_mealTypes)
  have len: "length (elems (read_prop (fallbackPlan (target_calories u) p u) ''meals'')) = 7"
    by (simp add: fallbackPlan_meals days_def)
  show "generateDietPlan env u p = (Inr (fallbackPlan (target_calories u) p u), []) \<and>
     length (elems (read_prop (fallbackPlan (target_calories u) p u) ''meals'')) = 7 \<and>
     plan_mealTypes (fallbackPlan (target_calories u) p u)
       = replicate 7 [JStr ''breakfast'', JStr ''lunch'', JStr ''dinner''] \<and>
     read_prop (fallbackPlan (target_calories u) p u) ''totalCalories''
       = JNum (target_calories u) \<and>
     object_keys (fallbackPlan (target_calories u) p u)
       = [''name'', ''description'', ''totalCalories'', ''durationWeeks'', ''meals'']"
    using gen len types fallbackPlan_totalCalories fallbackPlan_keys by simp
qed

theorem generateDietPlan_without_key_witness:
  "VITE_GEMINI_API_KEY no_key_env = None \<and> mealsPerDay example_preferences = 3 \<and>
   generateDietPlan no_key_env example_profile example_preferences
     = (Inr (fallbackPlan (Fin 2136) example_preferences example_profile), []) \<and>
   read_prop (fallbackPlan (Fin 2136) example_preferences example_profile) ''totalCalories''
     = JNum (Fin 2136)"
proof -
  have k: "VITE_GEMINI_API_KEY no_key_env = None" by (simp add: no_key_env_def)
  have m: "mealsPerDay example_preferences = 3" by (simp add: example_preferences_def)
  have h: "(VITE_GEMINI_API_KEY no_key_env = None \<or> VITE_GEMINI_API_KEY no_key_env = Some [] \<or>
      VITE_GEMINI_API_KEY no_key_env = Some ''demo-key'') \<and> mealsPerDay example_preferences = 3"
    using k m by simp
  show ?thesis
    using generateDietPlan_without_key [of no_key_env example_preferences example_profile,
        rule_format, OF h] k m
    by (simp add: example_target)
qed

theorem fallback_plan_stored_as_ai_generated:
  "fst (generateDietPlan no_key_env example_profile example_preferences)
     = Inr (fallbackPlan (Fin 2136) example_preferences example_profile) \<and>
   read_prop (fallbackPlan (Fin 2136) example_preferences example_profile) ''aiGenerated''
     = JUndefined \<and>
   ai_generated (createDietPlan_argument []
     (fallbackPlan (Fin 2136) example_preferences example_profile))"
proof -
  have req: "makeRequest no_key_env q = (Inl (Error ''API_KEY_MISSING''), [])" for q
    by (simp add: makeRequest_without_key no_key_env_def)
  have fb: "getComprehensiveFallbackDietPlan (Fin 2136) example_preferences example_profile
      = Inr (fallbackPlan (Fin 2136) example_preferences example_profile)"
    by (simp add: getComprehensiveFallbackDietPlan_def fallbackPlan_valid_iff
        slice0_mealTypes_nonempty_iff example_preferences_def)
  show ?thesis
    by (simp add: generateDietPlan_cases example_target req fb fallbackPlan_no_flag
        createDietPlan_argument_def)
qed

lemma fallback_meal_described:
  "recognized_mealType (JStr mt) \<Longrightarrow> described_meal c (fallback_meal c p d mt)"
  by (simp add: described_meal_def fallback_meal_fields selected_template_name)

lemma fallback_day_described:
  assumes "slice0 (mealTypes (mealsPerDay p)) (mealsPerDay p) \<noteq> []"
  shows "described_day (caloriesPerMeal dc p) (fallback_day dc p d)"
proof -
  have "list_all (\<lambda>mt. recognized_mealType (JStr mt))
          (slice0 (mealTypes (mealsPerDay p)) (mealsPerDay p))"
    by (rule slice0_entries [OF mealTypes_recognized])
  then show ?thesis
    using assms
    by (simp add: described_day_def caloriesPerMeal_def fallback_day_meals list_all_iff
        fallback_meal_described)
qed

lemma fallbackPlan_described:
  assumes "slice0 (mealTypes (mealsPerDay p)) (mealsPerDay p) \<noteq> []"
  shows "described_plan (caloriesPerMeal dc p) (fallbackPlan dc p u)"
  using fallback_day_described [OF assms]
  by (simp add: described_plan_def fallbackPlan_meals days_def list_all_iff)

lemma generateDietPlan_origin:
  assumes "fst (generateDietPlan env u p) = Inr plan"
  shows "plan = fallbackPlan (target_calories u) p u \<or>
         (\<exists>response.
            fst (makeRequest env (diet_plan_prompt u p (target_calories u))) = Inr response \<and>
            validateAndParseJson (cleanJsonResponse response) = Inr plan)"
  using assms
  by (auto simp: generateDietPlan_cases split: sum.splits if_splits dest: fallback_result)

text \<open>
  C1, as amended. For every input with 3 to 6 meals per day \<^verbatim>\<open>generateDietPlan\<close> returns
  a plan, and the plan passes the validator: exactly 7 days, each with at least one meal,
  every meal with a truthy name, a truthy meal type and calories of type number. The plan
  is the fallback plan or the answer of the model as it was parsed. In the fallback plan
  every meal has a non-empty name, one of the four meal types, and as calories the rounded
  share of the daily calories, which is not below zero whenever that share is not.
\<close>

theorem generateDietPlan_plan_shape:
  "3 \<le> mealsPerDay p \<and> mealsPerDay p \<le> 6 \<longrightarrow>
     (\<exists>plan. fst (generateDietPlan env u p) = Inr plan \<and> validateDietPlanStructure plan \<and>
        plan_ok plan \<and>
        (plan = fallbackPlan (target_calories u) p u \<or>
         (\<exists>response.
            fst (makeRequest env (diet_plan_prompt u p (target_calories u))) = Inr response \<and>
            validateAndParseJson (cleanJsonResponse response) = Inr plan))) \<and>
     described_plan (caloriesPerMeal (target_calories u) p) (fallbackPlan (target_calories u) p u) \<and>
     (nonneg_number (JNum (caloriesPerMeal (target_calories u) p)) \<longrightarrow>
        claimed_plan (fallbackPlan (target_calories u) p u))"
proof (intro impI, elim conjE)
  assume m: "3 \<le> mealsPerDay p" "mealsPerDay p \<le> 6"
  have ne: "slice0 (mealTypes (mealsPerDay p)) (mealsPerDay p) \<noteq> []"
    using m by (simp add: slice0_mealTypes_nonempty_iff)
  then have fb: "getComprehensiveFallbackDietPlan (target_calories u) p u
      = Inr (fallbackPlan (target_calories u) p u)"
    by (simp add: getComprehensiveFallbackDietPlan_def fallbackPlan_valid_iff)
  have "\<exists>plan. fst (generateDietPlan env u p) = Inr plan"
    unfolding generateDietPlan_cases fb by (simp split: sum.splits)
  then obtain plan where plan: "fst (generateDietPlan env u p) = Inr plan" ..
  then have v: "validateDietPlanStructure plan" by (rule generateDietPlan_result)
  then have ok: "plan_ok plan" by (simp add: validateDietPlanStructure_iff)
  have origin: "plan = fallbackPlan (target_calories u) p u \<or>
      (\<exists>response.
         fst (makeRequest env (diet_plan_prompt u p (target_calories u))) = Inr response \<and>
         validateAndParseJson (cleanJsonResponse response) = Inr plan)"
    by (rule generateDietPlan_origin [OF plan])
  have first: "\<exists>plan. fst (generateDietPlan env u p) = Inr plan \<and>
      validateDietPlanStructure plan \<and> plan_ok plan \<and>
      (plan = fallbackPlan (target_calories u) p u \<or>
       (\<exists>response.
          fst (makeRequest env (diet_plan_prompt u p (target_calories u))) = Inr response \<and>
          validateAndParseJson (cleanJsonResponse response) = Inr plan))"
    using plan v ok origin by blast
  have second: "described_plan (caloriesPerMeal (target_calories u) p)
      (fallbackPlan (target_calories u) p u)"
    by (rule fallbackPlan_described [OF ne])
  have third: "nonneg_number (JNum (caloriesPerMeal (target_calories u) p)) \<longrightarrow>
      claimed_plan (fallbackPlan (target_calories u) p u)"
    using fallbackPlan_claimed [OF ne, of "target_calories u" u]
    by (simp add: caloriesPerMeal_def)
  show "(\<exists>plan. fst (generateDietPlan env u p) = Inr plan \<and> validateDietPlanStructure plan \<and>
        plan_ok plan \<and>
        (plan = fallbackPlan (target_calories u) p u \<or>
         (\<exists>response.
            fst (makeRequest env (diet_plan_prompt u p (target_calories u))) = Inr response \<and>
            validateAndParseJson (cleanJsonResponse response) = Inr plan))) \<and>
     described_plan (caloriesPerMeal (target_calories u) p) (fallbackPlan (target_calories u) p u) \<and>
     (nonneg_number (JNum (caloriesPerMeal (target_calories u) p)) \<longrightarrow>
        claimed_plan (fallbackPlan (target_calories u) p u))"
    using first second third by (intro conjI)
qed

theorem generateDietPlan_plan_shape_witness:
  "3 \<le> mealsPerDay example_preferences \<and> mealsPerDay example_preferences \<le> 6 \<and>
   fst (generateDietPlan no_key_env example_profile example_preferences)
     = Inr (fallbackPlan (Fin 2136) example_preferences example_profile) \<and>
   plan_ok (fallbackPlan (Fin 2136) example_preferences example_profile) \<and>
   described_plan (Fin 712) (fallbackPlan (Fin 2136) example_preferences example_profile) \<and>
   claimed_plan (fallbackPlan (Fin 2136) example_preferences example_profile) \<and>
   described_plan NaN
     (fallbackPlan (target_calories (example_profile\<lparr>activityLevel := ''toString''\<rparr>))
        example_preferences (example_profile\<lparr>activityLevel := ''toString''\<rparr>))"
proof -
  let ?u = "example_profile\<lparr>activityLevel := ''toString''\<rparr>"
  have m: "3 \<le> mealsPerDay example_preferences \<and> mealsPerDay example_preferences \<le> 6"
    by (simp add: example_preferences_def)
  have req: "makeRequest no_key_env q = (Inl (Error ''API_KEY_MISSING''), [])" for q
    by (simp add: makeRequest_without_key no_key_env_def)
  have fb: "getComprehensiveFallbackDietPlan (Fin 2136) example_preferences example_profile
      = Inr (fallbackPlan (Fin 2136) example_preferences example_profile)"
    by (simp add: getComprehensiveFallbackDietPlan_def fallbackPlan_valid_iff
        slice0_mealTypes_nonempty_iff example_preferences_def)
  have gen: "fst (generateDietPlan no_key_env example_profile example_preferences)
      = Inr (fallbackPlan (Fin 2136) example_preferences example_profile)"
    by (simp add: generateDietPlan_cases example_target req fb)
  have share: "caloriesPerMeal (Fin 2136) example_preferences = Fin 712"
    by (simp add: caloriesPerMeal_def example_preferences_def floor_rat_numeral_div)
  have nan: "target_calories ?u = NaN"
    by (simp add: target_calories_def example_profile_def calculateDailyCalories_def tdee_of_def
        activityMultipliers_def Object_prototype_keys_def)
  have share_nan: "caloriesPerMeal NaN example_preferences = NaN"
    by (simp add: caloriesPerMeal_def)
  note T = generateDietPlan_plan_shape [of example_preferences no_key_env example_profile,
      rule_format, OF m]
  note N = generateDietPlan_plan_shape [of example_preferences no_key_env ?u, rule_format, OF m]
  have d: "described_plan (Fin 712) (fallbackPlan (Fin 2136) example_preferences example_profile)"
    using T [THEN conjunct2, THEN conjunct1] unfolding example_target share .
  have c: "claimed_plan (fallbackPlan (Fin 2136) example_preferences example_profile)"
    using T [THEN conjunct2, THEN conjunct2] unfolding example_target share by simp
  have dn: "described_plan NaN (fallbackPlan (target_calories ?u) example_preferences ?u)"
    using N [THEN conjunct2, THEN conjunct1] unfolding share_nan nan [symmetric]
    by (simp add: nan share_nan)
  from T [THEN conjunct1] obtain plan where
    p: "fst (generateDietPlan no_key_env example_profile example_preferences) = Inr plan"
      "plan_ok plan"
    by blast
  have "plan = fallbackPlan (Fin 2136) example_preferences example_profile"
    using p(1) gen by simp
  then have ok: "plan_ok (fallbackPlan (Fin 2136) example_preferences example_profile)"
    using p(2) by simp
  show ?thesis using m gen ok d c dn by blast
qed

theorem generateDietPlan_unrecognized_meal:
  "fst (generateDietPlan (answering_env brunch_text) example_profile example_preferences)
     = Inr brunch_plan \<and>
   \<not> claimed_plan brunch_plan \<and>
   read_prop brunch_meal ''mealType'' = JStr ''brunch'' \<and>
   read_prop brunch_meal ''calories'' = JNum (Fin (- 5))"
proof -
  have "validateAndParseJson (cleanJsonResponse brunch_text) = Inr brunch_plan"
    by (simp add: brunch_clean validateAndParseJson_def parse_and_log_def brunch_parse
        brunch_plan_def)
  then show ?thesis
    using brunch_valid
    by (simp add: generateDietPlan_cases answering_env_request brunch_meal_def)
qed

section \<open>Repair and retry: results\<close>

lemma indexOf_from_absent: "c \<notin> set xs \<Longrightarrow> indexOf_from i xs c = - 1"
  by (induction xs arbitrary: i) auto

lemma count_char_append: "count_char c (xs @ ys) = count_char c xs + count_char c ys"
  by (simp add: count_char_def)

lemma count_char_replicate: "count_char c (replicate k d) = (if c = d then k else 0)"
  by (simp add: count_char_def)

lemma trim_truncated:
  assumes "P = CHR ''{'' # P'" and "CHR ''}'' \<notin> set P \<or> endsWith P ''}''"
  shows "drop_trailing_comma (trim_to_last_brace (trim_to_first_brace (P @ '',''))) = P"
proof -
  have s1: "trim_to_first_brace (P @ '','') = P @ '',''"
    using assms(1) by (simp add: trim_to_first_brace_def startsWith_def)
  have e1: "\<not> endsWith (P @ '','') ''}''" by (simp add: endsWith_def startsWith_def)
  have e2: "endsWith (P @ '','') '',''" by (simp add: endsWith_def startsWith_def)
  show ?thesis
  proof (cases "CHR ''}'' \<in> set P")
    case False
    then have "lastIndexOf (P @ '','') (CHR ''}'') = - 1"
      by (simp add: lastIndexOf_def indexOf_def indexOf_from_absent)
    then have "trim_to_last_brace (P @ '','') = P @ '',''"
      using e1 by (simp add: trim_to_last_brace_def)
    then show ?thesis using s1 e2 by (simp add: drop_trailing_comma_def)
  next
    case True
    then have "endsWith P ''}''" using assms(2) by simp
    then obtain P0 where P0: "P = P0 @ ''}''"
      by (cases P rule: rev_cases) (simp_all add: endsWith_def startsWith_def)
    have li: "lastIndexOf (P @ '','') (CHR ''}'') = int (length P0)"
      by (simp add: P0 lastIndexOf_def indexOf_def)
    have sub: "substring (P @ '','') 0 (int (length P0) + 1) = P"
      by (simp add: P0 substring_def nat_add_distrib)
    have "trim_to_last_brace (P @ '','') = P"
      using e1 li sub by (simp add: trim_to_last_brace_def)
    moreover have "\<not> endsWith P '',''" by (simp add: P0 endsWith_def startsWith_def)
    ultimately show ?thesis using s1 by (simp add: drop_trailing_comma_def)
  qed
qed

lemma balance_braces_missing:
  "count_char (CHR ''{'') P = count_char (CHR ''}'') P + k \<Longrightarrow>
   balance_braces P = P @ replicate k (CHR ''}'')"
  by (simp add: balance_braces_def Let_def)

lemma balance_brackets_closed:
  "count_char (CHR ''['') P \<le> count_char (CHR '']'') P \<Longrightarrow>
   balance_brackets (P @ replicate k (CHR ''}'')) = P @ replicate k (CHR ''}'')"
  by (simp add: balance_brackets_def Let_def count_char_append count_char_replicate)

lemma fix_json_truncated:
  assumes "P = CHR ''{'' # P'" and "CHR ''}'' \<notin> set P \<or> endsWith P ''}''"
    and "count_char (CHR ''{'') P = count_char (CHR ''}'') P + k"
    and "count_char (CHR ''['') P \<le> count_char (CHR '']'') P"
  shows "fix_json (P @ '','') = P @ replicate k (CHR ''}'')"
  by (simp add: fix_json_def trim_truncated [OF assms(1,2)] balance_braces_missing [OF assms(3)]
      balance_brackets_closed [OF assms(4)])

lemma validateAndParseJson_error:
  "validateAndParseJson s = Inl e \<Longrightarrow>
   \<exists>directError fixedError.
     parse_and_log s = Inl directError \<and> parse_and_log (fix_json s) = Inl fixedError \<and>
     e = Error (''JSON parsing failed: '' @ directError)"
  by (auto simp: validateAndParseJson_def split: sum.splits)

lemma validateAndParseJson_retry:
  "parse_and_log s = Inl directError \<Longrightarrow>
   validateAndParseJson s =
     (case parse_and_log (fix_json s) of
        Inr parsed \<Rightarrow> Inr parsed
      | Inl fixedError \<Rightarrow> Inl (Error (''JSON parsing failed: '' @ directError)))"
  by (simp add: validateAndParseJson_def)

text \<open>
  C6, as amended. Take a text that starts with an opening brace, that has no closing
  brace or ends with one, that has \<open>k\<close> more opening than closing braces and no more
  opening than closing brackets (every occurrence counted, those inside strings too),
  and put a comma after it. When the direct parse of the result fails, the repair retries
  on the text without the comma and with \<open>k\<close> closing braces added, and returns what that
  parse returns. Whenever \<^verbatim>\<open>validateAndParseJson\<close> fails, both parses have failed and the
  error carries the message of the first.
\<close>

theorem validateAndParseJson_repair:
  "(P = CHR ''{'' # P' \<and> (CHR ''}'' \<notin> set P \<or> endsWith P ''}'') \<and>
    count_char (CHR ''{'') P = count_char (CHR ''}'') P + k \<and>
    count_char (CHR ''['') P \<le> count_char (CHR '']'') P \<and>
    parse_and_log (P @ '','') = Inl directError \<longrightarrow>
      fix_json (P @ '','') = P @ replicate k (CHR ''}'') \<and>
      validateAndParseJson (P @ '','') =
        (case parse_and_log (P @ replicate k (CHR ''}'')) of
           Inr parsed \<Rightarrow> Inr parsed
         | Inl fixedError \<Rightarrow> Inl (Error (''JSON parsing failed: '' @ directError)))) \<and>
   (validateAndParseJson s = Inl e \<longrightarrow>
      (\<exists>message fixedError.
         parse_and_log s = Inl message \<and> parse_and_log (fix_json s) = Inl fixedError \<and>
         e = Error (''JSON parsing failed: '' @ message)))"
  using fix_json_truncated [of P P' k] validateAndParseJson_retry [of "P @ '',''" directError]
    validateAndParseJson_error [of s e]
  by auto

theorem validateAndParseJson_repair_witness:
  \<open>fix_json ''{"a": {"b": 1,'' = ''{"a": {"b": 1}}'' \<and>
   validateAndParseJson ''{"a": {"b": 1,'' = Inr (JObj [(''a'', JObj [(''b'', JNum (Fin 1))])]) \<and>
   validateAndParseJson ''{"a": {"b": 1}}'' = Inr (JObj [(''a'', JObj [(''b'', JNum (Fin 1))])]) \<and>
   validateAndParseJson ''{"a": ]'' = Inl (Error ''JSON parsing failed: Unexpected token in JSON'')\<close>
proof -
  have d: \<open>parse_and_log (''{"a": {"b": 1'' @ '','') = Inl ''Unexpected end of JSON input''\<close>
    by code_simp
  have f: \<open>parse_and_log (''{"a": {"b": 1'' @ replicate 2 (CHR ''}''))
      = Inr (JObj [(''a'', JObj [(''b'', JNum (Fin 1))])])\<close>
    by code_simp
  have h: \<open>''{"a": {"b": 1'' = CHR ''{'' # ''"a": {"b": 1'' \<and>
      (CHR ''}'' \<notin> set ''{"a": {"b": 1'' \<or> endsWith ''{"a": {"b": 1'' ''}'') \<and>
      count_char (CHR ''{'') ''{"a": {"b": 1'' = count_char (CHR ''}'') ''{"a": {"b": 1'' + 2 \<and>
      count_char (CHR ''['') ''{"a": {"b": 1'' \<le> count_char (CHR '']'') ''{"a": {"b": 1'' \<and>
      parse_and_log (''{"a": {"b": 1'' @ '','') = Inl ''Unexpected end of JSON input''\<close>
    using d by (simp add: count_char_def)
  note T = validateAndParseJson_repair
  have r: \<open>fix_json (''{"a": {"b": 1'' @ '','')
        = ''{"a": {"b": 1'' @ replicate 2 (CHR ''}'') \<and>
      validateAndParseJson (''{"a": {"b": 1'' @ '','')
        = (case parse_and_log (''{"a": {"b": 1'' @ replicate 2 (CHR ''}'')) of
             Inr parsed \<Rightarrow> Inr parsed
           | Inl fixedError \<Rightarrow>
               Inl (Error (''JSON parsing failed: '' @ ''Unexpected end of JSON input'')))\<close>
    by (rule T [THEN conjunct1, rule_format, OF h])
  have w: \<open>validateAndParseJson ''{"a": {"b": 1}}''
      = Inr (JObj [(''a'', JObj [(''b'', JNum (Fin 1))])])\<close>
    by code_simp
  have b: \<open>validateAndParseJson ''{"a": ]''
      = Inl (Error ''JSON parsing failed: Unexpected token in JSON'')\<close>
    by code_simp
  have r1: \<open>fix_json ''{"a": {"b": 1,'' = ''{"a": {"b": 1}}''\<close>
    using r by (simp add: eval_nat_numeral)
  have r2: \<open>validateAndParseJson ''{"a": {"b": 1,''
      = Inr (JObj [(''a'', JObj [(''b'', JNum (Fin 1))])])\<close>
    using r unfolding f by simp
  show ?thesis using r1 r2 w b by blast
qed

theorem validateAndParseJson_repair_loses_tail:
  \<open>validateAndParseJson ''{"a": {"b": 1}, "c": {"d": 2,''
     = Inr (JObj [(''a'', JObj [(''b'', JNum (Fin 1))])]) \<and>
   validateAndParseJson ''{"a": {"b": 1}, "c": {"d": 2}}''
     = Inr (JObj [(''a'', JObj [(''b'', JNum (Fin 1))]), (''c'', JObj [(''d'', JNum (Fin 2))])]) \<and>
   validateAndParseJson ''{"a": {"b": 1}, "c": {"d": 2,''
     \<noteq> validateAndParseJson ''{"a": {"b": 1}, "c": {"d": 2}}''\<close>
proof -
  have x: \<open>validateAndParseJson ''{"a": {"b": 1}, "c": {"d": 2,''
      = Inr (JObj [(''a'', JObj [(''b'', JNum (Fin 1))])])\<close>
    by code_simp
  have y: \<open>validateAndParseJson ''{"a": {"b": 1}, "c": {"d": 2}}''
      = Inr (JObj [(''a'', JObj [(''b'', JNum (Fin 1))]), (''c'', JObj [(''d'', JNum (Fin 2))])])\<close>
    by code_simp
  show ?thesis unfolding x y by simp
qed

end
